theory Spec2Isabelle
  imports Complex_Main
begin

section \<open>Tune Shifter content script: data model\<close>

text \<open>
  The content script (the variant with the session-scoped \<open>reverbEnabled\<close> flag) keeps
  its state in module-level variables: \<open>currentSettings\<close>, \<open>settingsLoaded\<close>,
  \<open>audioContext\<close>, \<open>impulseResponseBuffer\<close>, \<open>audioGraphRegistry\<close>, \<open>mediaRegistry\<close>
  and \<open>nextId\<close>. Here they are the fields of one state record, passed through every
  function. What the script reads from the browser (the document, the media elements, the
  extension storage, whether a Web Audio call throws) is part of the same record.

  Conventions of the embedding:
  \<^item> a JavaScript value of unknown type (a stored blob, a settings field copied from it)
    is a \<open>jsval\<close>; numbers are reals, so \<open>NaN\<close>, infinities and rounding are left out;
  \<^item> a media element is a handle (a natural number) into the heap \<open>elements\<close>; two
    handles are the same element iff they are equal, as \<open>===\<close> on references;
  \<^item> an audio graph object is a handle into the heap \<open>graphs\<close>: the registry and a
    pending teardown timer may hold the same graph;
  \<^item> an assignment to a property of an element or of an audio node is a plain store;
    the only browser calls that can throw in the model are those the source wraps in
    \<open>try\<close>/\<open>catch\<close>;
  \<^item> \<open>await\<close> is sequential composition, and a handler runs to completion as one
    step (a storage read and the rendering of the impulse response complete within
    it), with two exceptions: the callback passed to \<open>setTimeout\<close> runs as a later
    step, and a handler that awaits \<open>chrome.storage.local.set\<close> stays suspended until
    the write settles, which is a later step too.
\<close>

datatype jsval =
    JUndefined
  | JNull
  | JBool bool
  | JNum real
  | JStr string
  | JArr "jsval list"
  | JObj "(string \<times> jsval) list"

text \<open>Truthiness (\<open>ToBoolean\<close>) and \<open>typeof\<close>.\<close>

fun truthy :: "jsval \<Rightarrow> bool" where
  "truthy JUndefined = False"
| "truthy JNull = False"
| "truthy (JBool b) = b"
| "truthy (JNum r) = (r \<noteq> 0)"
| "truthy (JStr s) = (s \<noteq> [])"
| "truthy (JArr xs) = True"
| "truthy (JObj kvs) = True"

fun typeof :: "jsval \<Rightarrow> string" where
  "typeof JUndefined = ''undefined''"
| "typeof JNull = ''object''"
| "typeof (JBool b) = ''boolean''"
| "typeof (JNum r) = ''number''"
| "typeof (JStr s) = ''string''"
| "typeof (JArr xs) = ''object''"
| "typeof (JObj kvs) = ''object''"

text \<open>
  The own property \<open>k\<close> that an object spread \<open>{...v}\<close> copies, for a property name
  that is not an array index. An array's own keys are its indices, so it contributes
  none of the setting names; a primitive contributes nothing.
\<close>

fun own_prop :: "jsval \<Rightarrow> string \<Rightarrow> jsval option" where
  "own_prop (JObj kvs) k = map_of kvs k"
| "own_prop v k = None"

text \<open>
  \<open>ToNumber\<close>, with \<open>None\<close> for \<open>NaN\<close>. Strings, arrays and objects are read as \<open>NaN\<close>:
  the engine's parsing of numeric strings is not modelled.
\<close>

fun ToNumber :: "jsval \<Rightarrow> real option" where
  "ToNumber (JNum r) = Some r"
| "ToNumber (JBool b) = Some (if b then 1 else 0)"
| "ToNumber JNull = Some 0"
| "ToNumber v = None"

subsection \<open>Settings\<close>

text \<open>
  \<open>interface SiteSettings extends PersistedSettings\<close>. The five persisted fields can hold
  whatever the stored blob held (\<open>loadSettings\<close> spreads it unchecked); \<open>reverbEnabled\<close>
  is only ever assigned a boolean. Keys of the stored blob other than the six names are
  carried along by the spread in the source and never read: the record leaves them out.
\<close>

record SiteSettings =
  volume :: jsval
  playbackRate :: jsval
  preservesPitch :: jsval
  muted :: jsval
  reverb :: jsval
  reverbEnabled :: bool

definition DEFAULT_SETTINGS :: SiteSettings where
  "DEFAULT_SETTINGS =
     \<lparr> volume = JNum 1, playbackRate = JNum 1, preservesPitch = JBool True,
       muted = JBool False, reverb = JNum 0, reverbEnabled = False \<rparr>"

subsection \<open>Media elements and the page\<close>

datatype media_kind = Audio | Video

text \<open>
  The properties of an \<open>HTMLMediaElement\<close> that the script reads or writes.
  \<open>el_getTitle\<close> stands for the result of \<open>getTitle(el)\<close>, which reads only the element
  and its surroundings in the document; \<open>el_duration = None\<close> is \<open>NaN\<close>.
\<close>

record HTMLMediaElement =
  el_kind :: media_kind
  el_src :: string
  el_currentSrc :: string
  el_getTitle :: string
  el_paused :: bool
  el_currentTime :: real
  el_duration :: "real option"
  el_volume :: jsval
  el_playbackRate :: jsval
  el_preservesPitch :: jsval
  el_mozPreservesPitch :: jsval
  el_muted :: jsval

text \<open>
  What the browser decides: the host name, the element heap, the media elements attached
  to the document (in document order), and which guarded calls throw.
\<close>

record page =
  hostname :: string
  elements :: "nat \<Rightarrow> HTMLMediaElement"
  doc :: "nat list"
  tapThrows :: "nat \<Rightarrow> bool"
  newContextThrows :: bool
  newContextSuspended :: bool
  renderThrows :: bool
  resumeThrows :: bool
  storageGetThrows :: bool
  storageSetThrows :: bool

subsection \<open>Audio graphs\<close>

text \<open>
  A gain node: the current value of its \<open>gain\<close> parameter, the last
  \<open>setTargetAtTime(target, now, timeConstant)\<close> (target \<open>None\<close> is \<open>NaN\<close>), and whether
  its outputs are still connected.
\<close>

record GainNode =
  gain_value :: real
  gain_target :: "(real option \<times> real) option"
  gain_connected :: bool

record MediaAudioGraph =
  sourceNode :: nat
  source_connected :: bool
  dryGain :: GainNode
  wetGain :: GainNode
  convolver_buffer :: bool
  convolver_connected :: bool
  reverbMix :: jsval
  graphReverbEnabled :: bool

datatype ctx_state = Suspended | Running

subsection \<open>Messages\<close>

record MediaInfo =
  mi_id :: nat
  mi_type :: media_kind
  mi_src :: string
  mi_title :: string
  mi_paused :: bool
  mi_currentTime :: real
  mi_duration :: real
  mi_volume :: jsval
  mi_playbackRate :: jsval
  mi_preservesPitch :: jsval
  mi_muted :: jsval
  mi_reverb :: jsval
  mi_reverbEnabled :: bool

text \<open>
  \<open>MessageRequest\<close>; \<open>Unknown\<close> is any message whose action is none of the eight. The id
  of a request is a natural number: any other number is in no registry, like an id that
  was never allocated.
\<close>

datatype request =
    Ping
  | GetMedia
  | SetVolume nat real
  | SetPlaybackRate nat real
  | SetPreservesPitch nat bool
  | SetMuted nat bool
  | SetReverb nat real
  | SetReverbEnabled nat bool
  | Unknown

datatype response =
    Pong
  | Media "MediaInfo list"
  | Ok
  | Error string

text \<open>What the script does that the outside can see, in order.\<close>

datatype obs =
    StorageSetCalled string jsval
  | StorageSetSettled bool
  | ResponseSent response

text \<open>
  A promise at the moment its creator stops running: already resolved, or resolving
  with the given value once the storage write that was just issued has settled.
\<close>

datatype 'a promise = Resolved 'a | AwaitsStore 'a

subsection \<open>The state\<close>

record state =
  currentSettings :: SiteSettings
  settingsLoaded :: bool
  audioContext :: "ctx_state option"
  impulseResponseBuffer :: bool
  audioGraphRegistry :: "nat \<rightharpoonup> nat"
  mediaRegistry :: "(nat \<times> nat) list"
  nextId :: nat
  graphs :: "nat \<Rightarrow> MediaAudioGraph"
  nextGraph :: nat
  tapped :: "nat set"
  timers :: "(nat \<times> nat) list"
  pendingSets :: "(string \<times> jsval) list"
  storage :: "string \<rightharpoonup> jsval"
  trace :: "obs list"
  page :: page

section \<open>The operations of the content script\<close>

subsection \<open>Settings store adapter\<close>

definition getCurrentDomain :: "state \<Rightarrow> string" where
  "getCurrentDomain s = (if hostname (page s) \<noteq> [] then hostname (page s) else ''default'')"

definition storageKey :: "state \<Rightarrow> string" where
  "storageKey s = ''tuneShifter_'' @ getCurrentDomain s"

text \<open>
  \<open>{ ...DEFAULT_SETTINGS, ...siteSettings, reverbEnabled: false }\<close>: a field of the stored
  value wins over the default, whatever its type; \<open>reverbEnabled\<close> is the literal.
\<close>

definition spread_field :: "jsval \<Rightarrow> string \<Rightarrow> jsval \<Rightarrow> jsval" where
  "spread_field siteSettings k dflt =
     (case own_prop siteSettings k of Some v \<Rightarrow> v | None \<Rightarrow> dflt)"

definition merge_settings :: "jsval \<Rightarrow> SiteSettings" where
  "merge_settings siteSettings =
     \<lparr> volume = spread_field siteSettings ''volume'' (volume DEFAULT_SETTINGS),
       playbackRate = spread_field siteSettings ''playbackRate'' (playbackRate DEFAULT_SETTINGS),
       preservesPitch =
         spread_field siteSettings ''preservesPitch'' (preservesPitch DEFAULT_SETTINGS),
       muted = spread_field siteSettings ''muted'' (muted DEFAULT_SETTINGS),
       reverb = spread_field siteSettings ''reverb'' (reverb DEFAULT_SETTINGS),
       reverbEnabled = False \<rparr>"

text \<open>
  \<open>loadSettings\<close>. \<open>result[storageKey]\<close> is \<open>undefined\<close> when the store has no record
  under the key; a failing read lands in the \<open>catch\<close>.
\<close>

definition loadSettings :: "state \<Rightarrow> state" where
  "loadSettings s =
     (if storageGetThrows (page s)
      then s\<lparr>currentSettings := DEFAULT_SETTINGS, settingsLoaded := True\<rparr>
      else
        let siteSettings = (case storage s (storageKey s) of None \<Rightarrow> JUndefined | Some v \<Rightarrow> v)
        in if truthy siteSettings \<and> typeof siteSettings = ''object''
           then s\<lparr>currentSettings := merge_settings siteSettings, settingsLoaded := True\<rparr>
           else s\<lparr>currentSettings := DEFAULT_SETTINGS, settingsLoaded := True\<rparr>)"

text \<open>The object literal \<open>settingsToSave\<close> of \<open>saveSettings\<close>.\<close>

definition settingsToSave :: "SiteSettings \<Rightarrow> jsval" where
  "settingsToSave cs =
     JObj [(''volume'', volume cs), (''playbackRate'', playbackRate cs),
           (''preservesPitch'', preservesPitch cs), (''muted'', muted cs),
           (''reverb'', reverb cs)]"

text \<open>
  \<open>saveSettings\<close>, up to the point where its caller stops running. If the call to the
  store throws at once, the \<open>catch\<close> swallows it and the promise is resolved. Otherwise the
  write is issued and \<open>saveSettings\<close> is suspended at its \<open>await\<close>: the write is queued
  in \<open>pendingSets\<close>.
\<close>

definition saveSettings :: "state \<Rightarrow> unit promise \<times> state" where
  "saveSettings s =
     (if storageSetThrows (page s) then (Resolved (), s)
      else
        let v = settingsToSave (currentSettings s)
        in (AwaitsStore (),
            s\<lparr>pendingSets := pendingSets s @ [(storageKey s, v)],
              trace := trace s @ [StorageSetCalled (storageKey s) v]\<rparr>))"

text \<open>
  The store settles the oldest pending write, successfully or not. The suspended
  handler resumes: \<open>saveSettings\<close> returns (a failure is swallowed by its \<open>catch\<close>),
  \<open>applyChange\<close> returns \<open>true\<close>, \<open>handleAsync\<close> returns \<open>{ ok: true }\<close> (every handler
  that calls \<open>applyChange\<close> does) and \<open>sendResponse\<close> is called with it.
\<close>

definition storageSettles :: "bool \<Rightarrow> state \<Rightarrow> state" where
  "storageSettles ok s =
     (case pendingSets s of
        [] \<Rightarrow> s
      | (k, v) # rest \<Rightarrow>
          s\<lparr>pendingSets := rest,
            storage := (if ok then (storage s)(k \<mapsto> v) else storage s),
            trace := trace s @ [StorageSetSettled ok, ResponseSent Ok]\<rparr>)"

subsection \<open>Media registry\<close>

text \<open>\<open>Map.prototype.set\<close> and \<open>delete\<close> on an insertion-ordered map.\<close>

definition map_set :: "nat \<Rightarrow> 'v \<Rightarrow> (nat \<times> 'v) list \<Rightarrow> (nat \<times> 'v) list" where
  "map_set k v m =
     (if k \<in> fst ` set m then map (\<lambda>(k', v'). if k' = k then (k', v) else (k', v')) m
      else m @ [(k, v)])"

definition map_delete :: "nat \<Rightarrow> (nat \<times> 'v) list \<Rightarrow> (nat \<times> 'v) list" where
  "map_delete k m = filter (\<lambda>(k', v'). k' \<noteq> k) m"

definition getMediaId :: "nat \<Rightarrow> state \<Rightarrow> nat \<times> state" where
  "getMediaId el s =
     (case find (\<lambda>(i, registered). registered = el) (mediaRegistry s) of
        Some (i, registered) \<Rightarrow> (i, s)
      | None \<Rightarrow>
          (nextId s,
           s\<lparr>mediaRegistry := map_set (nextId s) el (mediaRegistry s),
             nextId := nextId s + 1\<rparr>))"

definition document_contains :: "state \<Rightarrow> nat \<Rightarrow> bool" where
  "document_contains s el = (el \<in> set (doc (page s)))"

text \<open>The condition of \<open>pruneRegistry\<close>: detached, and neither \<open>src\<close> nor \<open>currentSrc\<close>.\<close>

definition prunable :: "state \<Rightarrow> nat \<Rightarrow> bool" where
  "prunable s el \<longleftrightarrow>
     \<not> document_contains s el \<and> el_src (elements (page s) el) = []
     \<and> el_currentSrc (elements (page s) el) = []"

definition prune_step :: "nat \<times> nat \<Rightarrow> state \<Rightarrow> state" where
  "prune_step = (\<lambda>(i, el) s.
     if prunable s el
     then s\<lparr>mediaRegistry := map_delete i (mediaRegistry s),
            audioGraphRegistry := (audioGraphRegistry s)(i := None)\<rparr>
     else s)"

definition pruneRegistry :: "state \<Rightarrow> state" where
  "pruneRegistry s = fold prune_step (mediaRegistry s) s"

definition discoverMediaElements :: "state \<Rightarrow> nat list" where
  "discoverMediaElements s =
     filter (\<lambda>el. el_kind (elements (page s) el) = Audio) (doc (page s))
     @ filter (\<lambda>el. el_kind (elements (page s) el) = Video) (doc (page s))"

subsection \<open>Audio graph manager\<close>

datatype error = ContextError | RenderError | ResumeError | TapError

text \<open>
  \<open>initAudioContext\<close>: the context is assigned before the impulse response is rendered,
  so a failing render leaves a context without a buffer.
\<close>

definition initAudioContext :: "state \<Rightarrow> (error + ctx_state) \<times> state" where
  "initAudioContext s =
     (case audioContext s of
        Some ctx \<Rightarrow> (Inr ctx, s)
      | None \<Rightarrow>
          if newContextThrows (page s) then (Inl ContextError, s)
          else
            let ctx = (if newContextSuspended (page s) then Suspended else Running);
                s1 = s\<lparr>audioContext := Some ctx\<rparr>
            in if renderThrows (page s) then (Inl RenderError, s1)
               else (Inr ctx, s1\<lparr>impulseResponseBuffer := True\<rparr>))"

text \<open>
  The body of the \<open>try\<close> block of \<open>createAudioGraph\<close>. After \<open>createMediaElementSource\<close>
  (the tap) nothing in the block throws.
\<close>

definition createAudioGraph_try :: "nat \<Rightarrow> nat \<Rightarrow> state \<Rightarrow> (error + nat) \<times> state" where
  "createAudioGraph_try i el s =
     (case initAudioContext s of
        (Inl e, s1) \<Rightarrow> (Inl e, s1)
      | (Inr ctx, s1) \<Rightarrow>
          if ctx = Suspended \<and> resumeThrows (page s1) then (Inl ResumeError, s1)
          else
            let s2 = s1\<lparr>audioContext := Some Running\<rparr>
            in if tapThrows (page s2) el then (Inl TapError, s2)
               else
                 let graph =
                       \<lparr> sourceNode = el, source_connected = True,
                         dryGain = \<lparr>gain_value = 1, gain_target = None, gain_connected = True\<rparr>,
                         wetGain = \<lparr>gain_value = 0, gain_target = None, gain_connected = True\<rparr>,
                         convolver_buffer = impulseResponseBuffer s2,
                         convolver_connected = True,
                         reverbMix = JNum 0, graphReverbEnabled = True \<rparr>;
                     g = nextGraph s2
                 in (Inr g,
                     s2\<lparr>tapped := insert el (tapped s2),
                        graphs := (graphs s2)(g := graph),
                        nextGraph := g + 1,
                        audioGraphRegistry := (audioGraphRegistry s2)(i \<mapsto> g)\<rparr>))"

definition createAudioGraph :: "nat \<Rightarrow> nat \<Rightarrow> state \<Rightarrow> nat option \<times> state" where
  "createAudioGraph i el s =
     (if \<not> reverbEnabled (currentSettings s) then (None, s)
      else
        case audioGraphRegistry s i of
          Some g \<Rightarrow> (Some g, s)
        | None \<Rightarrow>
            (case createAudioGraph_try i el s of
               (Inr g, s') \<Rightarrow> (Some g, s')
             | (Inl e, s') \<Rightarrow> (None, s')))"

definition setTargetAtTime :: "real option \<Rightarrow> real \<Rightarrow> GainNode \<Rightarrow> GainNode" where
  "setTargetAtTime target timeConstant n = n\<lparr>gain_target := Some (target, timeConstant)\<rparr>"

definition updateReverbMix :: "nat \<Rightarrow> jsval \<Rightarrow> state \<Rightarrow> state" where
  "updateReverbMix i wetMix s =
     (case audioGraphRegistry s i of
        None \<Rightarrow> s
      | Some g \<Rightarrow>
          (case audioContext s of
             None \<Rightarrow> s
           | Some ctx \<Rightarrow>
               let dryValue = map_option (\<lambda>m. cos ((m * pi) / 2)) (ToNumber wetMix);
                   wetValue = map_option (\<lambda>m. sin ((m * pi) / 2)) (ToNumber wetMix);
                   graph = graphs s g
               in s\<lparr>graphs := (graphs s)(g :=
                      graph\<lparr>dryGain := setTargetAtTime dryValue 0.02 (dryGain graph),
                            wetGain := setTargetAtTime wetValue 0.02 (wetGain graph),
                            reverbMix := wetMix\<rparr>)\<rparr>))"

definition ensureAudioGraph :: "nat \<Rightarrow> nat \<Rightarrow> state \<Rightarrow> nat option \<times> state" where
  "ensureAudioGraph i el s = createAudioGraph i el s"

text \<open>
  \<open>applySettingsToElement\<close>. The promise of \<open>ensureAudioGraph\<close> is not awaited by the
  caller; its continuation is composed in place.
\<close>

definition applySettingsToElement :: "nat \<Rightarrow> nat \<Rightarrow> state \<Rightarrow> state" where
  "applySettingsToElement el i s =
     (let cs = currentSettings s;
          e = (elements (page s) el)
                \<lparr>el_volume := volume cs, el_playbackRate := playbackRate cs,
                 el_preservesPitch := preservesPitch cs,
                 el_mozPreservesPitch := preservesPitch cs, el_muted := muted cs\<rparr>;
          s1 = s\<lparr>page := (page s)\<lparr>elements := (elements (page s))(el := e)\<rparr>\<rparr>
      in if reverbEnabled cs
         then (let (g, s2) = ensureAudioGraph i el s1
               in updateReverbMix i (reverb (currentSettings s2)) s2)
         else s1)"

text \<open>
  \<open>toggleReverb\<close>. Disabling starts the fade and schedules the cleanup: the timer keeps
  the id and the graph object it was created for.
\<close>

definition toggleReverb :: "nat \<Rightarrow> bool \<Rightarrow> state \<Rightarrow> state" where
  "toggleReverb i enabled s =
     (case map_of (mediaRegistry s) i of
        None \<Rightarrow> s
      | Some el \<Rightarrow>
          if enabled
          then (let (g, s1) = createAudioGraph i el s
                in updateReverbMix i (reverb (currentSettings s1)) s1)
          else
            (case audioGraphRegistry s i of
               None \<Rightarrow> s
             | Some g \<Rightarrow>
                 (case audioContext s of
                    None \<Rightarrow> s
                  | Some ctx \<Rightarrow>
                      let graph = graphs s g
                      in s\<lparr>graphs := (graphs s)(g :=
                             graph\<lparr>wetGain := setTargetAtTime (Some 0) 0.1 (wetGain graph),
                                   dryGain := setTargetAtTime (Some 1) 0.1 (dryGain graph)\<rparr>),
                           timers := timers s @ [(i, g)]\<rparr>)))"

text \<open>The callback of the \<open>setTimeout\<close> in \<open>toggleReverb\<close>, for the oldest pending timer.\<close>

definition disconnect_graph :: "MediaAudioGraph \<Rightarrow> MediaAudioGraph" where
  "disconnect_graph graph =
     graph\<lparr>source_connected := False,
           dryGain := (dryGain graph)\<lparr>gain_connected := False\<rparr>,
           wetGain := (wetGain graph)\<lparr>gain_connected := False\<rparr>,
           convolver_connected := False\<rparr>"

definition timerFires :: "state \<Rightarrow> state" where
  "timerFires s =
     (case timers s of
        [] \<Rightarrow> s
      | (i, g) # rest \<Rightarrow>
          s\<lparr>timers := rest,
            graphs := (graphs s)(g := disconnect_graph (graphs s g)),
            audioGraphRegistry := (audioGraphRegistry s)(i := None)\<rparr>)"

subsection \<open>Snapshot builder\<close>

definition buildMediaInfo :: "state \<Rightarrow> nat \<Rightarrow> nat \<Rightarrow> MediaInfo" where
  "buildMediaInfo s el i =
     (let e = elements (page s) el;
          graph = map_option (graphs s) (audioGraphRegistry s i)
      in \<lparr> mi_id = i,
           mi_type = (if el_kind e = Video then Video else Audio),
           mi_src = (if el_currentSrc e \<noteq> [] then el_currentSrc e
                     else if el_src e \<noteq> [] then el_src e else []),
           mi_title = el_getTitle e,
           mi_paused = el_paused e,
           mi_currentTime = el_currentTime e,
           mi_duration = (case el_duration e of None \<Rightarrow> 0 | Some d \<Rightarrow> if d = 0 then 0 else d),
           mi_volume = volume (currentSettings s),
           mi_playbackRate = playbackRate (currentSettings s),
           mi_preservesPitch = preservesPitch (currentSettings s),
           mi_muted = muted (currentSettings s),
           mi_reverb =
             (case graph of
                None \<Rightarrow> reverb (currentSettings s)
              | Some gr \<Rightarrow>
                  if reverbMix gr = JUndefined \<or> reverbMix gr = JNull
                  then reverb (currentSettings s) else reverbMix gr),
           mi_reverbEnabled =
             (case graph of None \<Rightarrow> False | Some gr \<Rightarrow> graphReverbEnabled gr) \<rparr>)"

text \<open>The body of the \<open>forEach\<close> in \<open>getAllMedia\<close> and in the initial scan.\<close>

definition identify_and_apply :: "nat \<Rightarrow> state \<Rightarrow> state" where
  "identify_and_apply el s = (let (i, s1) = getMediaId el s in applySettingsToElement el i s1)"

definition getAllMedia :: "state \<Rightarrow> MediaInfo list \<times> state" where
  "getAllMedia s =
     (let s1 = pruneRegistry s;
          els = discoverMediaElements s1;
          s2 = fold identify_and_apply els s1
      in (map (\<lambda>(i, el). buildMediaInfo s2 el i) (mediaRegistry s2), s2))"

subsection \<open>Command processor\<close>

text \<open>The pair \<open>(prop, value)\<close> that a handler passes to \<open>applyChange\<close>.\<close>

datatype change =
    ChVolume real
  | ChPlaybackRate real
  | ChPreservesPitch bool
  | ChMuted bool
  | ChReverb real
  | ChReverbEnabled bool

definition set_element :: "nat \<Rightarrow> (HTMLMediaElement \<Rightarrow> HTMLMediaElement) \<Rightarrow> state \<Rightarrow> state" where
  "set_element el f s =
     s\<lparr>page := (page s)\<lparr>elements := (elements (page s))(el := f (elements (page s) el))\<rparr>\<rparr>"

text \<open>The \<open>switch\<close> of \<open>applyChange\<close>.\<close>

fun apply_switch :: "nat \<Rightarrow> nat \<Rightarrow> change \<Rightarrow> state \<Rightarrow> state" where
  "apply_switch i el (ChVolume v) s =
     (let s1 = set_element el (\<lambda>e. e\<lparr>el_volume := JNum (max 0 (min 1 v))\<rparr>) s
      in s1\<lparr>currentSettings :=
              (currentSettings s1)\<lparr>volume := el_volume (elements (page s1) el)\<rparr>\<rparr>)"
| "apply_switch i el (ChPlaybackRate v) s =
     (let s1 = set_element el (\<lambda>e. e\<lparr>el_playbackRate := JNum v\<rparr>) s
      in s1\<lparr>currentSettings :=
              (currentSettings s1)\<lparr>playbackRate := el_playbackRate (elements (page s1) el)\<rparr>\<rparr>)"
| "apply_switch i el (ChPreservesPitch b) s =
     (let s1 = set_element el
                 (\<lambda>e. e\<lparr>el_preservesPitch := JBool b, el_mozPreservesPitch := JBool b\<rparr>) s
      in s1\<lparr>currentSettings := (currentSettings s1)\<lparr>preservesPitch := JBool b\<rparr>\<rparr>)"
| "apply_switch i el (ChMuted b) s =
     (let s1 = set_element el (\<lambda>e. e\<lparr>el_muted := JBool b\<rparr>) s
      in s1\<lparr>currentSettings :=
              (currentSettings s1)\<lparr>muted := el_muted (elements (page s1) el)\<rparr>\<rparr>)"
| "apply_switch i el (ChReverb v) s =
     (let s1 = s\<lparr>currentSettings := (currentSettings s)\<lparr>reverb := JNum (max 0 (min 1 v))\<rparr>\<rparr>
      in if reverbEnabled (currentSettings s1)
         then updateReverbMix i (reverb (currentSettings s1)) s1 else s1)"
| "apply_switch i el (ChReverbEnabled b) s =
     (let s1 = s\<lparr>currentSettings := (currentSettings s)\<lparr>reverbEnabled := b\<rparr>\<rparr>
      in toggleReverb i (reverbEnabled (currentSettings s1)) s1)"

text \<open>
  \<open>applyChange\<close>. For an id that is not in the registry it returns \<open>false\<close> before the
  \<open>switch\<close> and before \<open>saveSettings\<close>.
\<close>

definition applyChange :: "nat \<Rightarrow> change \<Rightarrow> state \<Rightarrow> bool promise \<times> state" where
  "applyChange i ch s =
     (case map_of (mediaRegistry s) i of
        None \<Rightarrow> (Resolved False, s)
      | Some el \<Rightarrow>
          (case saveSettings (apply_switch i el ch s) of
             (Resolved u, s') \<Rightarrow> (Resolved True, s')
           | (AwaitsStore u, s') \<Rightarrow> (AwaitsStore True, s')))"

text \<open>\<open>await applyChange(...); return { ok: true }\<close>.\<close>

definition change_then_ok :: "nat \<Rightarrow> change \<Rightarrow> state \<Rightarrow> response promise \<times> state" where
  "change_then_ok i ch s =
     (case applyChange i ch s of
        (Resolved b, s') \<Rightarrow> (Resolved Ok, s')
      | (AwaitsStore b, s') \<Rightarrow> (AwaitsStore Ok, s'))"

definition ensure_loaded :: "state \<Rightarrow> state" where
  "ensure_loaded s = (if \<not> settingsLoaded s then loadSettings s else s)"

fun dispatch :: "request \<Rightarrow> state \<Rightarrow> response promise \<times> state" where
  "dispatch Ping s = (Resolved Pong, s)"
| "dispatch GetMedia s = (let (media, s') = getAllMedia s in (Resolved (Media media), s'))"
| "dispatch (SetVolume i v) s = change_then_ok i (ChVolume v) s"
| "dispatch (SetPlaybackRate i v) s = change_then_ok i (ChPlaybackRate v) s"
| "dispatch (SetPreservesPitch i b) s = change_then_ok i (ChPreservesPitch b) s"
| "dispatch (SetMuted i b) s = change_then_ok i (ChMuted b) s"
| "dispatch (SetReverb i v) s = change_then_ok i (ChReverb v) s"
| "dispatch (SetReverbEnabled i b) s = change_then_ok i (ChReverbEnabled b) s"
| "dispatch Unknown s = (Resolved (Error ''Unknown action''), s)"

definition handleAsync :: "request \<Rightarrow> state \<Rightarrow> response promise \<times> state" where
  "handleAsync req s = dispatch req (ensure_loaded s)"

text \<open>
  The message listener: \<open>handleAsync().then(sendResponse)\<close>. A resolved promise sends
  the response in this step; a suspended one sends it when the storage write settles
  (\<open>storageSettles\<close>).
\<close>

definition onMessage :: "request \<Rightarrow> state \<Rightarrow> state" where
  "onMessage req s =
     (case handleAsync req s of
        (Resolved r, s') \<Rightarrow> s'\<lparr>trace := trace s' @ [ResponseSent r]\<rparr>
      | (AwaitsStore r, s') \<Rightarrow> s')"

subsection \<open>Events\<close>

text \<open>
  Everything that makes the script run, and everything the page does between two runs:
  \<^item> \<open>InitialScan\<close>: the scan of the elements already in the document;
  \<^item> \<open>LoadSettings\<close>: the \<open>loadSettings()\<close> of the initialisation;
  \<^item> \<open>Constructed el\<close>: the patched \<open>Audio\<close> constructor or \<open>document.createElement\<close>
    returned the new element \<open>el\<close>;
  \<^item> \<open>Mutation els\<close>: the mutation observer ran \<open>processMedia\<close> on these elements;
  \<^item> \<open>PlayCaptured el\<close>: the capturing \<open>play\<close> listener of the document;
  \<^item> \<open>PlayOnce el i\<close>: a once-only \<open>play\<close> listener that was registered with the id \<open>i\<close>;
  \<^item> \<open>Message req\<close>: a message from the popup;
  \<^item> \<open>TimerFires\<close>: the oldest cleanup timer expires;
  \<^item> \<open>StorageSettles ok\<close>: the oldest pending storage write completes or fails;
  \<^item> \<open>PageChanges p\<close>: the page or the browser changed the elements, the document or
    the outcome of the guarded calls.
\<close>

datatype event =
    InitialScan
  | LoadSettings
  | Constructed nat
  | Mutation "nat list"
  | PlayCaptured nat
  | PlayOnce nat nat
  | Message request
  | TimerFires
  | StorageSettles bool
  | PageChanges page

fun step :: "event \<Rightarrow> state \<Rightarrow> state" where
  "step InitialScan s = fold identify_and_apply (discoverMediaElements s) s"
| "step LoadSettings s = loadSettings s"
| "step (Constructed el) s = snd (getMediaId el s)"
| "step (Mutation els) s = fold identify_and_apply els s"
| "step (PlayCaptured el) s = identify_and_apply el s"
| "step (PlayOnce el i) s = applySettingsToElement el i s"
| "step (Message req) s = onMessage req s"
| "step TimerFires s = timerFires s"
| "step (StorageSettles ok) s = storageSettles ok s"
| "step (PageChanges p) s = s\<lparr>page := p\<rparr>"

definition run :: "event list \<Rightarrow> state \<Rightarrow> state" where
  "run evs s = fold step evs s"

text \<open>The state when the script starts on a page \<open>p\<close> with the store \<open>st\<close>.\<close>

definition no_graph :: MediaAudioGraph where
  "no_graph =
     \<lparr> sourceNode = 0, source_connected = False,
       dryGain = \<lparr>gain_value = 0, gain_target = None, gain_connected = False\<rparr>,
       wetGain = \<lparr>gain_value = 0, gain_target = None, gain_connected = False\<rparr>,
       convolver_buffer = False, convolver_connected = False,
       reverbMix = JUndefined, graphReverbEnabled = False \<rparr>"

definition initial :: "page \<Rightarrow> (string \<rightharpoonup> jsval) \<Rightarrow> state" where
  "initial p st =
     \<lparr> currentSettings = DEFAULT_SETTINGS, settingsLoaded = False,
       audioContext = None, impulseResponseBuffer = False,
       audioGraphRegistry = Map.empty, mediaRegistry = [], nextId = 1,
       graphs = (\<lambda>g. no_graph), nextGraph = 0, tapped = {},
       timers = [], pendingSets = [], storage = st, trace = [], page = p \<rparr>"

section \<open>Invariants of the registries\<close>

text \<open>
  \<open>mediaRegistry\<close> is kept in insertion order. Its ids are strictly ascending and below
  \<open>nextId\<close>, and no element is registered twice.
\<close>

definition registry_ok :: "state \<Rightarrow> bool" where
  "registry_ok s \<longleftrightarrow>
     sorted_wrt (<) (map fst (mediaRegistry s))
     \<and> (\<forall>k \<in> set (map fst (mediaRegistry s)). k < nextId s)
     \<and> distinct (map snd (mediaRegistry s))"

text \<open>
  From \<open>s\<close> to \<open>s'\<close> the counter does not go back, and an id below the counter of \<open>s\<close>
  that is registered in \<open>s'\<close> was registered in \<open>s\<close> for the same element.
\<close>

definition registry_evolves :: "state \<Rightarrow> state \<Rightarrow> bool" where
  "registry_evolves s s' \<longleftrightarrow>
     registry_ok s' \<and> nextId s \<le> nextId s'
     \<and> (\<forall>i e. i < nextId s \<longrightarrow> map_of (mediaRegistry s') i = Some e \<longrightarrow>
            map_of (mediaRegistry s) i = Some e)"

text \<open>A registered graph was built on an audio context.\<close>

definition graph_ok :: "state \<Rightarrow> bool" where
  "graph_ok s \<longleftrightarrow> (audioContext s = None \<longrightarrow> audioGraphRegistry s = Map.empty)"

text \<open>The id a mutating command names.\<close>

fun target_id :: "request \<Rightarrow> nat option" where
  "target_id (SetVolume i v) = Some i"
| "target_id (SetPlaybackRate i v) = Some i"
| "target_id (SetPreservesPitch i b) = Some i"
| "target_id (SetMuted i b) = Some i"
| "target_id (SetReverb i v) = Some i"
| "target_id (SetReverbEnabled i b) = Some i"
| "target_id req = None"

fun change_of :: "request \<Rightarrow> change option" where
  "change_of (SetVolume i v) = Some (ChVolume v)"
| "change_of (SetPlaybackRate i v) = Some (ChPlaybackRate v)"
| "change_of (SetPreservesPitch i b) = Some (ChPreservesPitch b)"
| "change_of (SetMuted i b) = Some (ChMuted b)"
| "change_of (SetReverb i v) = Some (ChReverb v)"
| "change_of (SetReverbEnabled i b) = Some (ChReverbEnabled b)"
| "change_of req = None"

section \<open>Example pages\<close>

text \<open>
  A page of \<open>example.org\<close> with one audio element in the document, and the same page
  with that element detached and without a source.
\<close>

definition example_element :: HTMLMediaElement where
  "example_element =
     \<lparr> el_kind = Audio, el_src = ''https://example.org/a.mp3'', el_currentSrc = [],
       el_getTitle = ''a.mp3'', el_paused = True, el_currentTime = 0, el_duration = None,
       el_volume = JNum 1, el_playbackRate = JNum 1, el_preservesPitch = JBool True,
       el_mozPreservesPitch = JUndefined, el_muted = JBool False \<rparr>"

definition example_page :: page where
  "example_page =
     \<lparr> hostname = ''example.org'', elements = (\<lambda>el. example_element), doc = [0],
       tapThrows = (\<lambda>el. False), newContextThrows = False, newContextSuspended = False,
       renderThrows = False, resumeThrows = False, storageGetThrows = False,
       storageSetThrows = False \<rparr>"


definition example_store :: "string \<rightharpoonup> jsval" where
  "example_store =
     [''tuneShifter_example.org'' \<mapsto>
        JObj [(''volume'', JNum (1 / 2)), (''reverbEnabled'', JBool True)]]"

text \<open>
  States of the example page: after the settings were loaded and a page script changed
  the volume of the element on its own; after the popup toggled reverb on, off and on
  again without waiting for the cleanup timer; after the settings were loaded and the
  element was registered; with reverb enabled in the settings (on a page where tapping
  throws, and on the plain page); and after the popup enabled reverb for the element.
\<close>

definition mutated_state :: state where
  "mutated_state =
     (loadSettings (initial example_page example_store))
       \<lparr>page := example_page\<lparr>elements := (\<lambda>el. example_element\<lparr>el_volume := JNum (9 / 10)\<rparr>)\<rparr>\<rparr>"

definition toggled_thrice :: state where
  "toggled_thrice =
     run [InitialScan, Message (SetReverbEnabled 1 True), Message (SetReverbEnabled 1 False),
          Message (SetReverbEnabled 1 True)]
       (initial example_page Map.empty)"

definition tracked_state :: state where
  "tracked_state = run [LoadSettings, InitialScan] (initial example_page Map.empty)"

definition blocked_state :: state where
  "blocked_state =
     (initial (example_page\<lparr>tapThrows := (\<lambda>el. True)\<rparr>) Map.empty)
       \<lparr>currentSettings := DEFAULT_SETTINGS\<lparr>reverbEnabled := True\<rparr>\<rparr>"

definition enabled_state :: state where
  "enabled_state =
     (initial example_page Map.empty)\<lparr>currentSettings := DEFAULT_SETTINGS\<lparr>reverbEnabled := True\<rparr>\<rparr>"

definition reverb_on_state :: state where
  "reverb_on_state =
     run [InitialScan, Message (SetReverbEnabled 1 True)] (initial example_page Map.empty)"

section \<open>Frame lemmas and preservation of the invariants\<close>

lemma updateReverbMix_frame:
  "mediaRegistry (updateReverbMix i w s) = mediaRegistry s"
  "nextId (updateReverbMix i w s) = nextId s"
  "currentSettings (updateReverbMix i w s) = currentSettings s"
  "audioGraphRegistry (updateReverbMix i w s) = audioGraphRegistry s"
  "audioContext (updateReverbMix i w s) = audioContext s"
  "page (updateReverbMix i w s) = page s"
  "tapped (updateReverbMix i w s) = tapped s"
  "trace (updateReverbMix i w s) = trace s"
  "pendingSets (updateReverbMix i w s) = pendingSets s"
  "storage (updateReverbMix i w s) = storage s"
  "settingsLoaded (updateReverbMix i w s) = settingsLoaded s"
  "timers (updateReverbMix i w s) = timers s"
  by (simp_all add: updateReverbMix_def Let_def split: option.splits)

lemma initAudioContext_frame:
  "mediaRegistry (snd (initAudioContext s)) = mediaRegistry s"
  "nextId (snd (initAudioContext s)) = nextId s"
  "currentSettings (snd (initAudioContext s)) = currentSettings s"
  "audioGraphRegistry (snd (initAudioContext s)) = audioGraphRegistry s"
  "page (snd (initAudioContext s)) = page s"
  "tapped (snd (initAudioContext s)) = tapped s"
  "trace (snd (initAudioContext s)) = trace s"
  "pendingSets (snd (initAudioContext s)) = pendingSets s"
  "storage (snd (initAudioContext s)) = storage s"
  "settingsLoaded (snd (initAudioContext s)) = settingsLoaded s"
  "timers (snd (initAudioContext s)) = timers s"
  by (simp_all add: initAudioContext_def Let_def split: option.splits)

lemma createAudioGraph_try_frame:
  "mediaRegistry (snd (createAudioGraph_try i el s)) = mediaRegistry s"
  "nextId (snd (createAudioGraph_try i el s)) = nextId s"
  "currentSettings (snd (createAudioGraph_try i el s)) = currentSettings s"
  "page (snd (createAudioGraph_try i el s)) = page s"
  "trace (snd (createAudioGraph_try i el s)) = trace s"
  "pendingSets (snd (createAudioGraph_try i el s)) = pendingSets s"
  "storage (snd (createAudioGraph_try i el s)) = storage s"
  "settingsLoaded (snd (createAudioGraph_try i el s)) = settingsLoaded s"
  "timers (snd (createAudioGraph_try i el s)) = timers s"
  by (simp_all add: createAudioGraph_try_def initAudioContext_def Let_def
      split: option.splits prod.splits sum.splits)

lemma snd_createAudioGraph:
  "snd (createAudioGraph i el s) =
     (if \<not> reverbEnabled (currentSettings s) then s
      else case audioGraphRegistry s i of
             Some g \<Rightarrow> s
           | None \<Rightarrow> snd (createAudioGraph_try i el s))"
  by (simp add: createAudioGraph_def split: option.splits prod.splits sum.splits)

lemma createAudioGraph_frame:
  "mediaRegistry (snd (createAudioGraph i el s)) = mediaRegistry s"
  "nextId (snd (createAudioGraph i el s)) = nextId s"
  "currentSettings (snd (createAudioGraph i el s)) = currentSettings s"
  "page (snd (createAudioGraph i el s)) = page s"
  "trace (snd (createAudioGraph i el s)) = trace s"
  "pendingSets (snd (createAudioGraph i el s)) = pendingSets s"
  "storage (snd (createAudioGraph i el s)) = storage s"
  "settingsLoaded (snd (createAudioGraph i el s)) = settingsLoaded s"
  "timers (snd (createAudioGraph i el s)) = timers s"
  by (simp_all add: snd_createAudioGraph createAudioGraph_try_frame split: option.splits)

lemma applySettingsToElement_frame:
  "mediaRegistry (applySettingsToElement el i s) = mediaRegistry s"
  "nextId (applySettingsToElement el i s) = nextId s"
  "currentSettings (applySettingsToElement el i s) = currentSettings s"
  "trace (applySettingsToElement el i s) = trace s"
  "pendingSets (applySettingsToElement el i s) = pendingSets s"
  "storage (applySettingsToElement el i s) = storage s"
  "settingsLoaded (applySettingsToElement el i s) = settingsLoaded s"
  "timers (applySettingsToElement el i s) = timers s"
  by (simp_all add: applySettingsToElement_def ensureAudioGraph_def Let_def split_beta
      updateReverbMix_frame createAudioGraph_frame)

lemma applySettingsToElement_page:
  "hostname (page (applySettingsToElement el i s)) = hostname (page s)"
  "doc (page (applySettingsToElement el i s)) = doc (page s)"
  "storageGetThrows (page (applySettingsToElement el i s)) = storageGetThrows (page s)"
  "storageSetThrows (page (applySettingsToElement el i s)) = storageSetThrows (page s)"
  by (simp_all add: applySettingsToElement_def ensureAudioGraph_def Let_def split_beta
      updateReverbMix_frame createAudioGraph_frame)

lemma toggleReverb_frame:
  "mediaRegistry (toggleReverb i b s) = mediaRegistry s"
  "nextId (toggleReverb i b s) = nextId s"
  "currentSettings (toggleReverb i b s) = currentSettings s"
  "page (toggleReverb i b s) = page s"
  "trace (toggleReverb i b s) = trace s"
  "pendingSets (toggleReverb i b s) = pendingSets s"
  "storage (toggleReverb i b s) = storage s"
  "settingsLoaded (toggleReverb i b s) = settingsLoaded s"
  by (simp_all add: toggleReverb_def Let_def split_beta
      updateReverbMix_frame createAudioGraph_frame split: option.splits)

lemma apply_switch_frame:
  "mediaRegistry (apply_switch i el ch s) = mediaRegistry s"
  "nextId (apply_switch i el ch s) = nextId s"
  "trace (apply_switch i el ch s) = trace s"
  "pendingSets (apply_switch i el ch s) = pendingSets s"
  "storage (apply_switch i el ch s) = storage s"
  "settingsLoaded (apply_switch i el ch s) = settingsLoaded s"
  by (cases ch; simp add: Let_def set_element_def updateReverbMix_frame toggleReverb_frame)+

lemma saveSettings_frame:
  "mediaRegistry (snd (saveSettings s)) = mediaRegistry s"
  "nextId (snd (saveSettings s)) = nextId s"
  "currentSettings (snd (saveSettings s)) = currentSettings s"
  "audioGraphRegistry (snd (saveSettings s)) = audioGraphRegistry s"
  "audioContext (snd (saveSettings s)) = audioContext s"
  "page (snd (saveSettings s)) = page s"
  "storage (snd (saveSettings s)) = storage s"
  "graphs (snd (saveSettings s)) = graphs s"
  by (simp_all add: saveSettings_def Let_def)

lemma snd_applyChange:
  "snd (applyChange i ch s) =
     (case map_of (mediaRegistry s) i of
        None \<Rightarrow> s
      | Some el \<Rightarrow> snd (saveSettings (apply_switch i el ch s)))"
  by (simp add: applyChange_def split: option.splits prod.splits promise.splits)

lemma applyChange_frame:
  "mediaRegistry (snd (applyChange i ch s)) = mediaRegistry s"
  "nextId (snd (applyChange i ch s)) = nextId s"
  by (simp_all add: snd_applyChange saveSettings_frame apply_switch_frame split: option.splits)

lemma map_set_fresh: "k \<notin> fst ` set m \<Longrightarrow> map_set k v m = m @ [(k, v)]"
  by (simp add: map_set_def)

lemma find_SomeD: "find P xs = Some x \<Longrightarrow> x \<in> set xs \<and> P x"
  by (induction xs) (auto split: if_splits)


lemma getMediaId_cases:
  obtains (found) i where "(i, el) \<in> set (mediaRegistry s)" "getMediaId el s = (i, s)"
  | (fresh) "el \<notin> snd ` set (mediaRegistry s)"
      "getMediaId el s =
         (nextId s, s\<lparr>mediaRegistry := map_set (nextId s) el (mediaRegistry s),
                      nextId := nextId s + 1\<rparr>)"
proof (cases "find (\<lambda>(i, registered). registered = el) (mediaRegistry s)")
  case None
  then have "el \<notin> snd ` set (mediaRegistry s)"
    by (force simp: find_None_iff)
  with None fresh show ?thesis by (simp add: getMediaId_def)
next
  case (Some p)
  then have "p \<in> set (mediaRegistry s)" and "snd p = el"
    by (auto dest: find_SomeD)
  then have "(fst p, el) \<in> set (mediaRegistry s)" by (metis prod.collapse)
  moreover from Some \<open>snd p = el\<close> have "getMediaId el s = (fst p, s)"
    by (simp add: getMediaId_def split: prod.splits)
  ultimately show ?thesis using found by blast
qed

lemma getMediaId_ok: "registry_ok s \<Longrightarrow> registry_ok (snd (getMediaId el s))"
proof (cases el s rule: getMediaId_cases)
  case (found i)
  assume "registry_ok s"
  with found show ?thesis by simp
next
  case fresh
  assume ok: "registry_ok s"
  then have "nextId s \<notin> fst ` set (mediaRegistry s)"
    by (auto simp: registry_ok_def)
  then have "map_set (nextId s) el (mediaRegistry s) = mediaRegistry s @ [(nextId s, el)]"
    by (rule map_set_fresh)
  with ok fresh show ?thesis
    by (auto simp: registry_ok_def sorted_wrt_append less_Suc_eq)
qed

lemma prune_step_frame:
  "nextId (prune_step x s) = nextId s"
  "page (prune_step x s) = page s"
  "currentSettings (prune_step x s) = currentSettings s"
  "audioContext (prune_step x s) = audioContext s"
  "trace (prune_step x s) = trace s"
  "pendingSets (prune_step x s) = pendingSets s"
  "storage (prune_step x s) = storage s"
  "settingsLoaded (prune_step x s) = settingsLoaded s"
  by (simp_all add: prune_step_def split: prod.splits)

lemma prunable_prune_step: "prunable (prune_step x s) el = prunable s el"
  by (simp add: prunable_def document_contains_def prune_step_frame)

lemma prune_fold_registry:
  "mediaRegistry (fold prune_step xs s) =
     filter (\<lambda>(k, v). k \<notin> fst ` {p \<in> set xs. prunable s (snd p)}) (mediaRegistry s)"
proof (induction xs arbitrary: s)
  case Nil
  then show ?case by simp
next
  case (Cons x xs)
  obtain i el where x: "x = (i, el)" by (cases x)
  show ?case
  proof (cases "prunable s el")
    case True
    then have "mediaRegistry (prune_step x s) = map_delete i (mediaRegistry s)"
      by (simp add: prune_step_def x)
    with True show ?thesis
      by (auto simp: Cons.IH prunable_prune_step x map_delete_def image_iff intro!: filter_cong)
  next
    case False
    then have "mediaRegistry (prune_step x s) = mediaRegistry s"
      by (simp add: prune_step_def x)
    with False show ?thesis
      by (auto simp: Cons.IH prunable_prune_step x image_iff intro!: filter_cong)
  qed
qed

lemma prune_fold_frame:
  "nextId (fold prune_step xs s) = nextId s"
  "page (fold prune_step xs s) = page s"
  "currentSettings (fold prune_step xs s) = currentSettings s"
  "audioContext (fold prune_step xs s) = audioContext s"
  "trace (fold prune_step xs s) = trace s"
  "pendingSets (fold prune_step xs s) = pendingSets s"
  "storage (fold prune_step xs s) = storage s"
  "settingsLoaded (fold prune_step xs s) = settingsLoaded s"
  by (induction xs arbitrary: s; simp add: prune_step_frame)+

lemma pruneRegistry_frame:
  "nextId (pruneRegistry s) = nextId s"
  "page (pruneRegistry s) = page s"
  "currentSettings (pruneRegistry s) = currentSettings s"
  "audioContext (pruneRegistry s) = audioContext s"
  "trace (pruneRegistry s) = trace s"
  "pendingSets (pruneRegistry s) = pendingSets s"
  "storage (pruneRegistry s) = storage s"
  "settingsLoaded (pruneRegistry s) = settingsLoaded s"
  by (simp_all add: pruneRegistry_def prune_fold_frame)

lemma pruneRegistry_registry:
  "mediaRegistry (pruneRegistry s) =
     filter (\<lambda>(k, v). k \<notin> fst ` {p \<in> set (mediaRegistry s). prunable s (snd p)})
       (mediaRegistry s)"
  by (simp add: pruneRegistry_def prune_fold_registry)

lemma registry_ok_filter:
  "registry_ok s \<Longrightarrow> mediaRegistry s' = filter P (mediaRegistry s) \<Longrightarrow> nextId s \<le> nextId s' \<Longrightarrow>
   registry_ok s'"
  by (auto simp: registry_ok_def sorted_wrt_filter sorted_wrt_map distinct_map_filter)

lemma pruneRegistry_ok: "registry_ok s \<Longrightarrow> registry_ok (pruneRegistry s)"
  by (erule registry_ok_filter [OF _ pruneRegistry_registry])
     (simp add: pruneRegistry_frame)

lemma evolves_same:
  "registry_ok s \<Longrightarrow> mediaRegistry s' = mediaRegistry s \<Longrightarrow> nextId s' = nextId s \<Longrightarrow>
   registry_evolves s s'"
  by (simp add: registry_evolves_def registry_ok_def)

lemma evolves_trans:
  "registry_evolves s s' \<Longrightarrow> registry_evolves s' s'' \<Longrightarrow> registry_evolves s s''"
  unfolding registry_evolves_def
  by (meson le_trans less_le_trans)

lemma evolves_ok: "registry_evolves s s' \<Longrightarrow> registry_ok s'"
  by (simp add: registry_evolves_def)

lemma map_of_filter_keys:
  "map_of (filter (\<lambda>(k, v). Q k) xs) i = (if Q i then map_of xs i else None)"
  by (induction xs) auto

lemma getMediaId_evolves: "registry_ok s \<Longrightarrow> registry_evolves s (snd (getMediaId el s))"
proof (cases el s rule: getMediaId_cases)
  case (found i)
  assume "registry_ok s"
  with found show ?thesis by (simp add: evolves_same)
next
  case fresh
  assume ok: "registry_ok s"
  then have ok': "registry_ok (snd (getMediaId el s))" by (rule getMediaId_ok)
  from ok have "nextId s \<notin> fst ` set (mediaRegistry s)"
    by (auto simp: registry_ok_def)
  then have "map_set (nextId s) el (mediaRegistry s) = mediaRegistry s @ [(nextId s, el)]"
    by (rule map_set_fresh)
  with fresh ok' show ?thesis
    by (auto simp: registry_evolves_def split: if_splits)
qed

lemma pruneRegistry_evolves: "registry_ok s \<Longrightarrow> registry_evolves s (pruneRegistry s)"
  unfolding registry_evolves_def
  using pruneRegistry_ok [of s]
  by (simp add: pruneRegistry_registry map_of_filter_keys pruneRegistry_frame split: if_splits)

lemma identify_and_apply_registry:
  "mediaRegistry (identify_and_apply el s) = mediaRegistry (snd (getMediaId el s))"
  "nextId (identify_and_apply el s) = nextId (snd (getMediaId el s))"
  by (simp_all add: identify_and_apply_def split_beta applySettingsToElement_frame)

lemma identify_and_apply_evolves:
  "registry_ok s \<Longrightarrow> registry_evolves s (identify_and_apply el s)"
  using getMediaId_evolves [of s el]
  by (simp add: registry_evolves_def registry_ok_def identify_and_apply_registry)

lemma fold_evolves:
  assumes "\<And>x s. registry_ok s \<Longrightarrow> registry_evolves s (f x s)"
  shows "registry_ok s \<Longrightarrow> registry_evolves s (fold f xs s)"
proof (induction xs arbitrary: s)
  case Nil
  then show ?case by (simp add: evolves_same)
next
  case (Cons x xs)
  from Cons.prems have 1: "registry_evolves s (f x s)" by (rule assms)
  then have "registry_evolves (f x s) (fold f xs (f x s))"
    by (intro Cons.IH evolves_ok)
  with 1 show ?case by (auto intro: evolves_trans)
qed

lemma fold_identify_evolves:
  "registry_ok s \<Longrightarrow> registry_evolves s (fold identify_and_apply xs s)"
  using fold_evolves [where f = identify_and_apply and s = s and xs = xs]
    identify_and_apply_evolves
  by blast

lemma snd_getAllMedia:
  "snd (getAllMedia s) =
     fold identify_and_apply (discoverMediaElements (pruneRegistry s)) (pruneRegistry s)"
  by (simp add: getAllMedia_def Let_def)

lemma getAllMedia_evolves: "registry_ok s \<Longrightarrow> registry_evolves s (snd (getAllMedia s))"
  unfolding snd_getAllMedia
  by (blast intro: evolves_trans pruneRegistry_evolves fold_identify_evolves evolves_ok)

lemma loadSettings_frame:
  "mediaRegistry (loadSettings s) = mediaRegistry s"
  "nextId (loadSettings s) = nextId s"
  "audioGraphRegistry (loadSettings s) = audioGraphRegistry s"
  "audioContext (loadSettings s) = audioContext s"
  "page (loadSettings s) = page s"
  "trace (loadSettings s) = trace s"
  "pendingSets (loadSettings s) = pendingSets s"
  "storage (loadSettings s) = storage s"
  "graphs (loadSettings s) = graphs s"
  "settingsLoaded (loadSettings s) = True"
  by (simp_all add: loadSettings_def Let_def)

lemma ensure_loaded_frame:
  "mediaRegistry (ensure_loaded s) = mediaRegistry s"
  "nextId (ensure_loaded s) = nextId s"
  "audioGraphRegistry (ensure_loaded s) = audioGraphRegistry s"
  "audioContext (ensure_loaded s) = audioContext s"
  "page (ensure_loaded s) = page s"
  "trace (ensure_loaded s) = trace s"
  "pendingSets (ensure_loaded s) = pendingSets s"
  "storage (ensure_loaded s) = storage s"
  "graphs (ensure_loaded s) = graphs s"
  "settingsLoaded (ensure_loaded s) = True"
  by (simp_all add: ensure_loaded_def loadSettings_frame)

lemma snd_change_then_ok: "snd (change_then_ok i ch s) = snd (applyChange i ch s)"
  by (simp add: change_then_ok_def split: prod.splits promise.splits)

lemma dispatch_evolves: "registry_ok s \<Longrightarrow> registry_evolves s (snd (dispatch req s))"
  by (cases req)
     (simp_all add: split_beta getAllMedia_evolves evolves_same snd_change_then_ok
        applyChange_frame)

lemma onMessage_registry:
  "mediaRegistry (onMessage req s) = mediaRegistry (snd (dispatch req (ensure_loaded s)))"
  "nextId (onMessage req s) = nextId (snd (dispatch req (ensure_loaded s)))"
  by (simp_all add: onMessage_def handleAsync_def split: prod.splits promise.splits)

lemma onMessage_evolves: "registry_ok s \<Longrightarrow> registry_evolves s (onMessage req s)"
proof -
  assume ok: "registry_ok s"
  then have "registry_ok (ensure_loaded s)"
    by (simp add: registry_ok_def ensure_loaded_frame)
  then have "registry_evolves (ensure_loaded s) (snd (dispatch req (ensure_loaded s)))"
    by (rule dispatch_evolves)
  then show ?thesis
    by (simp add: registry_evolves_def registry_ok_def onMessage_registry ensure_loaded_frame)
qed

lemma step_evolves: "registry_ok s \<Longrightarrow> registry_evolves s (step ev s)"
proof (cases ev)
  case InitialScan
  assume "registry_ok s"
  then show ?thesis
    unfolding InitialScan step.simps by (rule fold_identify_evolves)
next
  case (Mutation els)
  assume "registry_ok s"
  then show ?thesis
    unfolding Mutation step.simps by (rule fold_identify_evolves)
qed (simp_all add: evolves_same loadSettings_frame getMediaId_evolves
      identify_and_apply_evolves applySettingsToElement_frame onMessage_evolves
      timerFires_def storageSettles_def split: list.splits)

lemma run_evolves: "registry_ok s \<Longrightarrow> registry_evolves s (run evs s)"
  unfolding run_def
  using fold_evolves [where f = step and s = s and xs = evs] step_evolves
  by blast

lemma initial_ok: "registry_ok (initial p st)"
  by (simp add: registry_ok_def initial_def)

lemma graph_ok_same:
  "graph_ok s \<Longrightarrow> audioContext s' = audioContext s \<Longrightarrow>
   audioGraphRegistry s' = audioGraphRegistry s \<Longrightarrow> graph_ok s'"
  by (simp add: graph_ok_def)

lemma createAudioGraph_try_graph_ok:
  "graph_ok s \<Longrightarrow> graph_ok (snd (createAudioGraph_try i el s))"
  by (auto simp: graph_ok_def createAudioGraph_try_def initAudioContext_def Let_def
      split: option.splits if_splits)

lemma createAudioGraph_graph_ok: "graph_ok s \<Longrightarrow> graph_ok (snd (createAudioGraph i el s))"
  by (simp add: snd_createAudioGraph createAudioGraph_try_graph_ok split: option.splits)

lemma applySettingsToElement_graph_ok:
  "graph_ok s \<Longrightarrow> graph_ok (applySettingsToElement el i s)"
proof -
  assume ok: "graph_ok s"
  let ?s1 = "s\<lparr>page := (page s)\<lparr>elements := (elements (page s))(el :=
      (elements (page s) el)
        \<lparr>el_volume := volume (currentSettings s), el_playbackRate := playbackRate (currentSettings s),
         el_preservesPitch := preservesPitch (currentSettings s),
         el_mozPreservesPitch := preservesPitch (currentSettings s),
         el_muted := muted (currentSettings s)\<rparr>)\<rparr>\<rparr>"
  from ok have 1: "graph_ok ?s1" by (simp add: graph_ok_def)
  then have "graph_ok (snd (createAudioGraph i el ?s1))" by (rule createAudioGraph_graph_ok)
  then have "graph_ok (updateReverbMix i w (snd (createAudioGraph i el ?s1)))" for w
    by (simp add: graph_ok_def updateReverbMix_frame)
  with 1 show ?thesis
    by (simp add: applySettingsToElement_def ensureAudioGraph_def Let_def split_beta)
qed

lemma getMediaId_graph:
  "audioContext (snd (getMediaId el s)) = audioContext s"
  "audioGraphRegistry (snd (getMediaId el s)) = audioGraphRegistry s"
  by (simp_all add: getMediaId_def split: option.splits prod.splits)

lemma identify_and_apply_graph_ok: "graph_ok s \<Longrightarrow> graph_ok (identify_and_apply el s)"
proof -
  assume "graph_ok s"
  then have "graph_ok (snd (getMediaId el s))"
    by (simp add: graph_ok_def getMediaId_graph)
  then show ?thesis
    by (simp add: identify_and_apply_def split_beta applySettingsToElement_graph_ok)
qed

lemma fold_graph_ok:
  assumes "\<And>x s. graph_ok s \<Longrightarrow> graph_ok (f x s)"
  shows "graph_ok s \<Longrightarrow> graph_ok (fold f xs s)"
  by (induction xs arbitrary: s) (simp_all add: assms)

lemma prune_step_graph_ok: "graph_ok s \<Longrightarrow> graph_ok (prune_step x s)"
  by (auto simp: graph_ok_def prune_step_def split: prod.splits)

lemma pruneRegistry_graph_ok: "graph_ok s \<Longrightarrow> graph_ok (pruneRegistry s)"
  unfolding pruneRegistry_def
  using fold_graph_ok [where f = prune_step] prune_step_graph_ok by blast

lemma fold_identify_graph_ok: "graph_ok s \<Longrightarrow> graph_ok (fold identify_and_apply xs s)"
  using fold_graph_ok [where f = identify_and_apply] identify_and_apply_graph_ok by blast

lemma toggleReverb_graph_ok: "graph_ok s \<Longrightarrow> graph_ok (toggleReverb i b s)"
proof -
  assume ok: "graph_ok s"
  then have "graph_ok (updateReverbMix i w (snd (createAudioGraph i el s)))" for w el
    using createAudioGraph_graph_ok [of s i el] by (simp add: graph_ok_def updateReverbMix_frame)
  with ok show ?thesis
    by (auto simp: toggleReverb_def Let_def split_beta graph_ok_def split: option.splits)
qed

lemma apply_switch_graph_ok: "graph_ok s \<Longrightarrow> graph_ok (apply_switch i el ch s)"
proof (cases ch)
  case (ChReverbEnabled b)
  assume "graph_ok s"
  then have "graph_ok (s\<lparr>currentSettings := (currentSettings s)\<lparr>reverbEnabled := b\<rparr>\<rparr>)"
    by (simp add: graph_ok_def)
  then show ?thesis
    by (simp add: ChReverbEnabled Let_def toggleReverb_graph_ok)
qed (simp_all add: graph_ok_def Let_def set_element_def updateReverbMix_frame)

lemma applyChange_graph_ok: "graph_ok s \<Longrightarrow> graph_ok (snd (applyChange i ch s))"
proof -
  assume ok: "graph_ok s"
  have "graph_ok (snd (saveSettings (apply_switch i el ch s)))" for el
    using apply_switch_graph_ok [OF ok, of i el ch]
    by (simp add: graph_ok_def saveSettings_frame)
  with ok show ?thesis
    by (simp add: snd_applyChange split: option.splits)
qed

lemma dispatch_graph_ok: "graph_ok s \<Longrightarrow> graph_ok (snd (dispatch req s))"
  by (cases req)
     (simp_all add: split_beta snd_getAllMedia snd_change_then_ok applyChange_graph_ok
        pruneRegistry_graph_ok fold_identify_graph_ok)

lemma onMessage_graph:
  "audioContext (onMessage req s) = audioContext (snd (dispatch req (ensure_loaded s)))"
  "audioGraphRegistry (onMessage req s) = audioGraphRegistry (snd (dispatch req (ensure_loaded s)))"
  by (simp_all add: onMessage_def handleAsync_def split: prod.splits promise.splits)

lemma onMessage_graph_ok: "graph_ok s \<Longrightarrow> graph_ok (onMessage req s)"
proof -
  assume "graph_ok s"
  then have "graph_ok (ensure_loaded s)"
    by (simp add: graph_ok_def ensure_loaded_frame)
  then have "graph_ok (snd (dispatch req (ensure_loaded s)))"
    by (rule dispatch_graph_ok)
  then show ?thesis
    by (simp add: graph_ok_def onMessage_graph)
qed

lemma timerFires_graph_ok: "graph_ok s \<Longrightarrow> graph_ok (timerFires s)"
  by (auto simp: graph_ok_def timerFires_def split: list.splits)

lemma storageSettles_graph_ok: "graph_ok s \<Longrightarrow> graph_ok (storageSettles ok s)"
  by (auto simp: graph_ok_def storageSettles_def split: list.splits)

lemma step_graph_ok: "graph_ok s \<Longrightarrow> graph_ok (step ev s)"
  by (cases ev)
     (simp_all add: fold_identify_graph_ok identify_and_apply_graph_ok
        applySettingsToElement_graph_ok onMessage_graph_ok timerFires_graph_ok
        storageSettles_graph_ok graph_ok_same [of s] loadSettings_frame getMediaId_graph)

lemma run_graph_ok: "graph_ok s \<Longrightarrow> graph_ok (run evs s)"
  unfolding run_def using fold_graph_ok [where f = step] step_graph_ok by blast

lemma initial_graph_ok: "graph_ok (initial p st)"
  by (simp add: graph_ok_def initial_def)

lemma change_then_ok_stale:
  "map_of (mediaRegistry s) i = None \<Longrightarrow> change_then_ok i ch s = (Resolved Ok, s)"
  by (simp add: change_then_ok_def applyChange_def)

lemma dispatch_stale:
  "target_id req = Some i \<Longrightarrow> map_of (mediaRegistry s) i = None \<Longrightarrow>
   dispatch req s = (Resolved Ok, s)"
  by (cases req) (simp_all add: change_then_ok_stale)

lemma getMediaId_frame:
  "currentSettings (snd (getMediaId el s)) = currentSettings s"
  "page (snd (getMediaId el s)) = page s"
  "trace (snd (getMediaId el s)) = trace s"
  "pendingSets (snd (getMediaId el s)) = pendingSets s"
  "storage (snd (getMediaId el s)) = storage s"
  "settingsLoaded (snd (getMediaId el s)) = settingsLoaded s"
  by (simp_all add: getMediaId_def split: option.splits prod.splits)

lemma identify_and_apply_frame:
  "currentSettings (identify_and_apply el s) = currentSettings s"
  "doc (page (identify_and_apply el s)) = doc (page s)"
  "trace (identify_and_apply el s) = trace s"
  "pendingSets (identify_and_apply el s) = pendingSets s"
  "storage (identify_and_apply el s) = storage s"
  "settingsLoaded (identify_and_apply el s) = settingsLoaded s"
  by (simp_all add: identify_and_apply_def split_beta applySettingsToElement_frame
      applySettingsToElement_page getMediaId_frame)

lemma fold_identify_frame:
  "currentSettings (fold identify_and_apply els s) = currentSettings s"
  "doc (page (fold identify_and_apply els s)) = doc (page s)"
  "trace (fold identify_and_apply els s) = trace s"
  "pendingSets (fold identify_and_apply els s) = pendingSets s"
  "storage (fold identify_and_apply els s) = storage s"
  "settingsLoaded (fold identify_and_apply els s) = settingsLoaded s"
  by (induction els arbitrary: s; simp add: identify_and_apply_frame)+

lemma getAllMedia_frame:
  "currentSettings (snd (getAllMedia s)) = currentSettings s"
  "trace (snd (getAllMedia s)) = trace s"
  "pendingSets (snd (getAllMedia s)) = pendingSets s"
  "storage (snd (getAllMedia s)) = storage s"
  "settingsLoaded (snd (getAllMedia s)) = settingsLoaded s"
  by (simp_all add: snd_getAllMedia fold_identify_frame pruneRegistry_frame)

lemma fst_getAllMedia:
  "fst (getAllMedia s) =
     map (\<lambda>(i, el). buildMediaInfo (snd (getAllMedia s)) el i)
       (mediaRegistry (snd (getAllMedia s)))"
  by (simp add: getAllMedia_def Let_def)

lemma buildMediaInfo_settings:
  "mi_volume (buildMediaInfo s el i) = volume (currentSettings s)"
  "mi_playbackRate (buildMediaInfo s el i) = playbackRate (currentSettings s)"
  "mi_preservesPitch (buildMediaInfo s el i) = preservesPitch (currentSettings s)"
  "mi_muted (buildMediaInfo s el i) = muted (currentSettings s)"
  "mi_id (buildMediaInfo s el i) = i"
  by (simp_all add: buildMediaInfo_def Let_def)

lemma getAllMedia_reports_settings:
  "info \<in> set (fst (getAllMedia s)) \<Longrightarrow>
   mi_volume info = volume (currentSettings s)
   \<and> mi_playbackRate info = playbackRate (currentSettings s)
   \<and> mi_preservesPitch info = preservesPitch (currentSettings s)
   \<and> mi_muted info = muted (currentSettings s)"
  by (auto simp: fst_getAllMedia buildMediaInfo_settings getAllMedia_frame)

lemmas run_defs = run_def onMessage_def handleAsync_def ensure_loaded_def loadSettings_def
  change_then_ok_def applyChange_def saveSettings_def settingsToSave_def storageSettles_def
  timerFires_def disconnect_graph_def toggleReverb_def updateReverbMix_def setTargetAtTime_def
  createAudioGraph_def createAudioGraph_try_def initAudioContext_def ensureAudioGraph_def
  applySettingsToElement_def identify_and_apply_def getAllMedia_def buildMediaInfo_def
  pruneRegistry_def prune_step_def prunable_def document_contains_def discoverMediaElements_def
  getMediaId_def map_set_def map_delete_def set_element_def merge_settings_def spread_field_def
  storageKey_def getCurrentDomain_def DEFAULT_SETTINGS_def initial_def
  example_page_def example_element_def Let_def

lemma identify_and_apply_ok: "registry_ok s \<Longrightarrow> registry_ok (identify_and_apply el s)"
  by (rule evolves_ok [OF identify_and_apply_evolves])

lemma getAllMedia_ok: "registry_ok s \<Longrightarrow> registry_ok (snd (getAllMedia s))"
  by (rule evolves_ok [OF getAllMedia_evolves])

lemma run_ok: "registry_ok s \<Longrightarrow> registry_ok (run evs s)"
  by (rule evolves_ok [OF run_evolves])

lemma ascending_distinct: "sorted_wrt (<) (xs :: nat list) \<Longrightarrow> distinct xs"
  by (induction xs) auto

lemma getAllMedia_ids:
  "map mi_id (fst (getAllMedia s)) = map fst (mediaRegistry (snd (getAllMedia s)))"
  by (simp add: fst_getAllMedia buildMediaInfo_settings split_beta comp_def)

lemma getMediaId_appends:
  "registry_ok s \<Longrightarrow> \<exists>ys. mediaRegistry (snd (getMediaId el s)) = mediaRegistry s @ ys"
proof (cases el s rule: getMediaId_cases)
  case (found i)
  then show ?thesis by simp
next
  case fresh
  assume "registry_ok s"
  then have "nextId s \<notin> fst ` set (mediaRegistry s)"
    by (auto simp: registry_ok_def)
  with fresh show ?thesis by (simp add: map_set_fresh)
qed

lemma fold_identify_appends:
  "registry_ok s \<Longrightarrow> \<exists>ys. mediaRegistry (fold identify_and_apply els s) = mediaRegistry s @ ys"
proof (induction els arbitrary: s)
  case Nil
  then show ?case by simp
next
  case (Cons el els)
  from Cons.prems obtain ys where 1: "mediaRegistry (identify_and_apply el s) = mediaRegistry s @ ys"
    using getMediaId_appends [of s el] by (auto simp: identify_and_apply_registry)
  from Cons.prems have "registry_ok (identify_and_apply el s)"
    by (rule identify_and_apply_ok)
  then obtain zs where
    "mediaRegistry (fold identify_and_apply els (identify_and_apply el s)) =
       mediaRegistry (identify_and_apply el s) @ zs"
    using Cons.IH by blast
  with 1 show ?case by simp
qed

lemma registry_ok_run: "registry_ok (run evs (initial p st))"
  by (rule run_ok [OF initial_ok])

lemma registry_ok_ensure_loaded: "registry_ok s \<Longrightarrow> registry_ok (ensure_loaded s)"
  by (simp add: registry_ok_def ensure_loaded_frame)

lemma pruneRegistry_ensure_loaded:
  "mediaRegistry (pruneRegistry (ensure_loaded s)) = mediaRegistry (pruneRegistry s)"
  by (simp add: pruneRegistry_registry ensure_loaded_frame prunable_def document_contains_def)

lemma getAllMedia_empty:
  "mediaRegistry s = [] \<Longrightarrow> doc (page s) = [] \<Longrightarrow> fst (getAllMedia s) = []"
  by (simp add: getAllMedia_def Let_def pruneRegistry_def discoverMediaElements_def)





lemma createAudioGraph_try_throws:
  "fst (createAudioGraph_try i el s) = Inl e \<Longrightarrow>
   tapped (snd (createAudioGraph_try i el s)) = tapped s
   \<and> audioGraphRegistry (snd (createAudioGraph_try i el s)) = audioGraphRegistry s
   \<and> graphs (snd (createAudioGraph_try i el s)) = graphs s"
  by (auto simp: createAudioGraph_try_def initAudioContext_def Let_def
      split: option.splits if_splits)

lemma createAudioGraph_try_returns:
  "fst (createAudioGraph_try i el s) = Inr g \<Longrightarrow>
   \<not> tapThrows (page s) el
   \<and> tapped (snd (createAudioGraph_try i el s)) = insert el (tapped s)
   \<and> audioGraphRegistry (snd (createAudioGraph_try i el s)) = (audioGraphRegistry s)(i \<mapsto> g)
   \<and> sourceNode (graphs (snd (createAudioGraph_try i el s)) g) = el
   \<and> source_connected (graphs (snd (createAudioGraph_try i el s)) g)"
  by (auto simp: createAudioGraph_try_def initAudioContext_def Let_def
      split: option.splits if_splits)

lemma createAudioGraph_try_tapThrows:
  "tapThrows (page s) el \<Longrightarrow> \<exists>e. fst (createAudioGraph_try i el s) = Inl e"
  by (auto simp: createAudioGraph_try_def initAudioContext_def Let_def
      split: option.splits if_splits)

lemma fst_createAudioGraph:
  "fst (createAudioGraph i el s) =
     (if \<not> reverbEnabled (currentSettings s) then None
      else case audioGraphRegistry s i of
             Some g \<Rightarrow> Some g
           | None \<Rightarrow> (case fst (createAudioGraph_try i el s) of Inr g \<Rightarrow> Some g | Inl e \<Rightarrow> None))"
  by (simp add: createAudioGraph_def split: option.splits prod.splits sum.splits)

lemma graph_ok_run: "graph_ok (run evs (initial p st))"
  by (rule run_graph_ok [OF initial_graph_ok])

lemma cos_plus_sin_quarter:
  fixes x :: real
  assumes "0 < x" "x < pi / 2"
  shows "1 < cos x + sin x"
proof -
  from assms have c: "0 < cos x" and sn: "0 < sin x"
    by (simp_all add: cos_gt_zero sin_gt_zero2)
  have "x \<le> pi" using assms pi_gt_zero by linarith
  with assms have "cos x < cos 0"
    by (intro cos_monotone_0_pi) simp_all
  then have c1: "cos x < 1" by simp
  have "0 < pi / 2 - x" "pi / 2 - x \<le> pi"
    using assms pi_gt_zero by linarith+
  then have "cos (pi / 2 - x) < cos 0"
    by (intro cos_monotone_0_pi) simp_all
  then have s1: "sin x < 1" by (simp add: sin_cos_eq)
  from c c1 have "cos x * cos x < 1 * cos x"
    by (intro mult_strict_right_mono)
  moreover from sn s1 have "sin x * sin x < 1 * sin x"
    by (intro mult_strict_right_mono)
  moreover have "cos x * cos x + sin x * sin x = 1"
    using sin_cos_squared_add2 [of x] by (simp add: power2_eq_square)
  ultimately show ?thesis by linarith
qed

lemma quarter_bounds:
  fixes m :: real
  shows "0 \<le> m \<Longrightarrow> 0 \<le> (m * pi) / 2" and "m \<le> 1 \<Longrightarrow> (m * pi) / 2 \<le> pi / 2"
    and "0 < m \<Longrightarrow> 0 < (m * pi) / 2" and "m < 1 \<Longrightarrow> (m * pi) / 2 < pi / 2"
proof -
  show "0 \<le> m \<Longrightarrow> 0 \<le> (m * pi) / 2" by simp
  show "0 < m \<Longrightarrow> 0 < (m * pi) / 2" by simp
  show "m \<le> 1 \<Longrightarrow> (m * pi) / 2 \<le> pi / 2"
    using mult_right_mono [of m 1 pi] by simp
  show "m < 1 \<Longrightarrow> (m * pi) / 2 < pi / 2"
    using mult_strict_right_mono [of m 1 pi] by simp
qed

lemma equal_power_not_linear:
  fixes m :: real
  assumes "0 < m" "m < 1"
  shows "1 < cos ((m * pi) / 2) + sin ((m * pi) / 2)"
  by (rule cos_plus_sin_quarter) (use assms in \<open>simp_all only: quarter_bounds\<close>)

lemma equal_power_nonneg:
  fixes m :: real
  assumes "0 \<le> m" "m \<le> 1"
  shows "0 \<le> cos ((m * pi) / 2)" "0 \<le> sin ((m * pi) / 2)"
proof -
  from assms have x: "0 \<le> (m * pi) / 2" "(m * pi) / 2 \<le> pi / 2"
    by (simp_all only: quarter_bounds)
  then have "- (pi / 2) \<le> (m * pi) / 2" "(m * pi) / 2 \<le> pi"
    using pi_gt_zero by linarith+
  with x show "0 \<le> cos ((m * pi) / 2)" "0 \<le> sin ((m * pi) / 2)"
    by (auto intro: cos_ge_zero sin_ge_zero simp del: times_divide_eq_left)
qed

lemma dispatch_change:
  "target_id req = Some i \<Longrightarrow> change_of req = Some ch \<Longrightarrow> dispatch req s = change_then_ok i ch s"
  by (cases req) simp_all

lemma apply_switch_page:
  "hostname (page (apply_switch i el ch s)) = hostname (page s)"
  "storageSetThrows (page (apply_switch i el ch s)) = storageSetThrows (page s)"
  "storageGetThrows (page (apply_switch i el ch s)) = storageGetThrows (page s)"
  "doc (page (apply_switch i el ch s)) = doc (page s)"
  by (cases ch; simp add: Let_def set_element_def updateReverbMix_frame toggleReverb_frame)+

lemma storageKey_cong: "hostname (page s') = hostname (page s) \<Longrightarrow> storageKey s' = storageKey s"
  by (simp add: storageKey_def getCurrentDomain_def)

section \<open>The settings store adapter\<close>

lemmas ex_defs = example_element_def example_page_def example_store_def initial_def
  storageKey_def getCurrentDomain_def DEFAULT_SETTINGS_def

lemma saved_keys:
  "{k. own_prop (settingsToSave cs) k \<noteq> None} =
     {''volume'', ''playbackRate'', ''preservesPitch'', ''muted'', ''reverb''}"
  by (auto simp: settingsToSave_def split: if_splits)

lemma load_reverbEnabled: "reverbEnabled (currentSettings (loadSettings s)) = False"
  by (simp add: loadSettings_def Let_def merge_settings_def DEFAULT_SETTINGS_def)

text \<open>
  Claim C3. The record that \<open>saveSettings\<close> writes has exactly the keys \<open>volume\<close>,
  \<open>playbackRate\<close>, \<open>preservesPitch\<close>, \<open>muted\<close> and \<open>reverb\<close>, so never \<open>reverbEnabled\<close>;
  the write it queues is that record; and whatever the store holds (a record with
  \<open>reverbEnabled: true\<close> included) and whether or not the read fails, the settings after
  \<open>loadSettings\<close> have \<open>reverbEnabled = false\<close>.
\<close>

theorem reverbEnabled_never_persisted:
  "{k. own_prop (settingsToSave cs) k \<noteq> None} =
     {''volume'', ''playbackRate'', ''preservesPitch'', ''muted'', ''reverb''}
   \<and> own_prop (settingsToSave cs) ''reverbEnabled'' = None
   \<and> pendingSets (snd (saveSettings s)) =
       (if storageSetThrows (page s) then pendingSets s
        else pendingSets s @ [(storageKey s, settingsToSave (currentSettings s))])
   \<and> reverbEnabled (currentSettings (loadSettings s)) = False"
  using saved_keys load_reverbEnabled
  by (simp add: saveSettings_def Let_def settingsToSave_def)

theorem reverbEnabled_never_persisted_witness:
  "storage (initial example_page example_store) (storageKey (initial example_page example_store))
     = Some (JObj [(''volume'', JNum (1 / 2)), (''reverbEnabled'', JBool True)])
   \<and> reverbEnabled (currentSettings (loadSettings (initial example_page example_store))) = False
   \<and> own_prop (settingsToSave (currentSettings (loadSettings (initial example_page example_store))))
        ''reverbEnabled'' = None"
  using reverbEnabled_never_persisted
    [of "currentSettings (loadSettings (initial example_page example_store))"
        "initial example_page example_store"]
  by (simp add: ex_defs)



section \<open>The command processor\<close>

text \<open>
  Claim C7. A mutating command (\<open>setVolume\<close>, \<open>setPlaybackRate\<close>, \<open>setPreservesPitch\<close>,
  \<open>setMuted\<close>, \<open>setReverb\<close>, \<open>setReverbEnabled\<close>) whose id is not in the media
  registry is answered \<open>{ok: true}\<close> in the same step, and does nothing else: after the
  settings were loaded (the first thing every handler does when they are not loaded yet)
  the state is left as it is, so the settings record, the elements, the graphs and the
  store are unchanged and no storage write is issued. On this path the handler calls
  nothing that can throw but the storage read, which \<open>loadSettings\<close> guards.
\<close>

theorem stale_id_is_noop_success:
  assumes "target_id req = Some i" and "map_of (mediaRegistry s) i = None"
  shows "handleAsync req s = (Resolved Ok, ensure_loaded s)
    \<and> onMessage req s = (ensure_loaded s)\<lparr>trace := trace s @ [ResponseSent Ok]\<rparr>
    \<and> (settingsLoaded s \<longrightarrow> ensure_loaded s = s)
    \<and> currentSettings (ensure_loaded s) =
        (if settingsLoaded s then currentSettings s else currentSettings (loadSettings s))
    \<and> pendingSets (onMessage req s) = pendingSets s
    \<and> storage (onMessage req s) = storage s
    \<and> mediaRegistry (onMessage req s) = mediaRegistry s
    \<and> page (onMessage req s) = page s
    \<and> graphs (onMessage req s) = graphs s
    \<and> audioGraphRegistry (onMessage req s) = audioGraphRegistry s"
proof -
  from assms have "dispatch req (ensure_loaded s) = (Resolved Ok, ensure_loaded s)"
    by (simp add: dispatch_stale ensure_loaded_frame)
  then show ?thesis
    by (simp add: handleAsync_def onMessage_def ensure_loaded_frame)
       (simp add: ensure_loaded_def)
qed

theorem stale_id_is_noop_success_witness:
  "target_id (SetVolume 7 (1 / 2)) = Some 7
   \<and> mediaRegistry tracked_state = [(1, 0)]
   \<and> map_of (mediaRegistry tracked_state) 7 = None
   \<and> settingsLoaded tracked_state
   \<and> handleAsync (SetVolume 7 (1 / 2)) tracked_state = (Resolved Ok, tracked_state)
   \<and> trace (onMessage (SetVolume 7 (1 / 2)) tracked_state) = [ResponseSent Ok]
   \<and> pendingSets (onMessage (SetVolume 7 (1 / 2)) tracked_state) = []"
proof -
  have h1: "target_id (SetVolume 7 (1 / 2)) = Some 7" by simp
  have r: "mediaRegistry tracked_state = [(1, 0)]"
    by (simp add: tracked_state_def run_defs)
  then have h2: "map_of (mediaRegistry tracked_state) 7 = None" by simp
  have h3: "settingsLoaded tracked_state"
    and h4: "trace tracked_state = []" "pendingSets tracked_state = []"
    by (simp_all add: tracked_state_def run_defs)
  from stale_id_is_noop_success [OF h1 h2] h3
  have "handleAsync (SetVolume 7 (1 / 2)) tracked_state = (Resolved Ok, tracked_state)"
    and "trace (onMessage (SetVolume 7 (1 / 2)) tracked_state)
           = trace tracked_state @ [ResponseSent Ok]"
    and "pendingSets (onMessage (SetVolume 7 (1 / 2)) tracked_state) = pendingSets tracked_state"
    by simp_all
  with h1 h2 h3 h4 r show ?thesis by simp
qed

text \<open>
  Claim C8, as amended. For a mutating command on a registered id the handler changes the
  settings record and issues the storage write (the record of the changed settings), and
  then stays suspended: it adds no response to the trace. The response \<open>{ok: true}\<close>
  is sent when that write settles, successfully or not. Only when the call to the store
  throws at once is the response sent in the same step, without a write.
\<close>

theorem response_sent_after_store_settles:
  assumes "target_id req = Some i" and "change_of req = Some ch"
    and "map_of (mediaRegistry s) i = Some el"
  shows "currentSettings (onMessage req s)
           = currentSettings (apply_switch i el ch (ensure_loaded s))
    \<and> (\<not> storageSetThrows (page s) \<longrightarrow>
         pendingSets (onMessage req s)
           = pendingSets s @ [(storageKey s, settingsToSave (currentSettings (onMessage req s)))]
         \<and> trace (onMessage req s)
           = trace s @ [StorageSetCalled (storageKey s)
                          (settingsToSave (currentSettings (onMessage req s)))]
         \<and> storage (onMessage req s) = storage s
         \<and> (pendingSets s = [] \<longrightarrow>
              trace (storageSettles ok (onMessage req s))
                = trace s @ [StorageSetCalled (storageKey s)
                               (settingsToSave (currentSettings (onMessage req s))),
                             StorageSetSettled ok, ResponseSent Ok]
              \<and> storage (storageSettles ok (onMessage req s))
                = (if ok then (storage s)(storageKey s \<mapsto>
                                 settingsToSave (currentSettings (onMessage req s)))
                   else storage s)))
    \<and> (storageSetThrows (page s) \<longrightarrow>
         pendingSets (onMessage req s) = pendingSets s
         \<and> trace (onMessage req s) = trace s @ [ResponseSent Ok])"
proof -
  let ?l = "ensure_loaded s"
  let ?s1 = "apply_switch i el ch ?l"
  have reg: "map_of (mediaRegistry ?l) i = Some el"
    using assms(3) by (simp add: ensure_loaded_frame)
  have key: "storageKey ?s1 = storageKey s"
    by (intro storageKey_cong) (simp add: apply_switch_page ensure_loaded_frame)
  have thr: "storageSetThrows (page ?s1) = storageSetThrows (page s)"
    by (simp add: apply_switch_page ensure_loaded_frame)
  have fr: "pendingSets ?s1 = pendingSets s" "trace ?s1 = trace s" "storage ?s1 = storage s"
    by (simp_all add: apply_switch_frame ensure_loaded_frame)
  have d: "dispatch req ?l = change_then_ok i ch ?l"
    using assms(1,2) by (rule dispatch_change)
  show ?thesis
  proof (cases "storageSetThrows (page s)")
    case True
    with thr have "saveSettings ?s1 = (Resolved (), ?s1)"
      by (simp add: saveSettings_def)
    with reg d have "onMessage req s = ?s1\<lparr>trace := trace ?s1 @ [ResponseSent Ok]\<rparr>"
      by (simp add: onMessage_def handleAsync_def change_then_ok_def applyChange_def)
    with True fr show ?thesis by simp
  next
    case False
    with thr key have "saveSettings ?s1 =
        (AwaitsStore (),
         ?s1\<lparr>pendingSets := pendingSets ?s1 @ [(storageKey s, settingsToSave (currentSettings ?s1))],
              trace := trace ?s1 @ [StorageSetCalled (storageKey s)
                                      (settingsToSave (currentSettings ?s1))]\<rparr>)"
      by (simp add: saveSettings_def Let_def)
    with reg d have "onMessage req s =
        ?s1\<lparr>pendingSets := pendingSets ?s1 @ [(storageKey s, settingsToSave (currentSettings ?s1))],
              trace := trace ?s1 @ [StorageSetCalled (storageKey s)
                                      (settingsToSave (currentSettings ?s1))]\<rparr>"
      by (simp add: onMessage_def handleAsync_def change_then_ok_def applyChange_def)
    with False fr show ?thesis by (simp add: storageSettles_def)
  qed
qed

theorem response_sent_after_store_settles_witness:
  "map_of (mediaRegistry tracked_state) 1 = Some 0
   \<and> \<not> storageSetThrows (page tracked_state)
   \<and> pendingSets tracked_state = []
   \<and> volume (currentSettings (onMessage (SetVolume 1 (3 / 2)) tracked_state)) = JNum 1
   \<and> trace (onMessage (SetVolume 1 (3 / 2)) tracked_state)
       = [StorageSetCalled ''tuneShifter_example.org''
            (settingsToSave (currentSettings (onMessage (SetVolume 1 (3 / 2)) tracked_state)))]
   \<and> trace (storageSettles True (onMessage (SetVolume 1 (3 / 2)) tracked_state))
       = [StorageSetCalled ''tuneShifter_example.org''
            (settingsToSave (currentSettings (onMessage (SetVolume 1 (3 / 2)) tracked_state))),
          StorageSetSettled True, ResponseSent Ok]"
proof -
  have h: "map_of (mediaRegistry tracked_state) 1 = Some 0"
    "\<not> storageSetThrows (page tracked_state)" "pendingSets tracked_state = []"
    "trace tracked_state = []" "storageKey tracked_state = ''tuneShifter_example.org''"
    by (simp_all add: tracked_state_def run_defs)
  have v: "volume (currentSettings (apply_switch 1 0 (ChVolume (3 / 2)) (ensure_loaded tracked_state)))
      = JNum 1"
    by (simp add: Let_def set_element_def)
  from response_sent_after_store_settles
    [of "SetVolume 1 (3 / 2)" 1 "ChVolume (3 / 2)" tracked_state 0 True] h v
  show ?thesis by simp
qed

text \<open>
  Claim C8 as stated fails. The response waits for the store: after the handler of \<open>setVolume(1, 0.5)\<close> ran, the
  write is issued and no response was sent; the response follows the settling of the
  write.
\<close>

theorem response_waits_for_store_counterexample:
  "map_of (mediaRegistry tracked_state) 1 = Some 0
   \<and> trace (step (Message (SetVolume 1 (1 / 2))) tracked_state)
       = [StorageSetCalled ''tuneShifter_example.org''
            (JObj [(''volume'', JNum (1 / 2)), (''playbackRate'', JNum 1),
                   (''preservesPitch'', JBool True), (''muted'', JBool False),
                   (''reverb'', JNum 0)])]
   \<and> ResponseSent Ok \<notin> set (trace (step (Message (SetVolume 1 (1 / 2))) tracked_state))
   \<and> trace (run [Message (SetVolume 1 (1 / 2)), StorageSettles True] tracked_state)
       = [StorageSetCalled ''tuneShifter_example.org''
            (JObj [(''volume'', JNum (1 / 2)), (''playbackRate'', JNum 1),
                   (''preservesPitch'', JBool True), (''muted'', JBool False),
                   (''reverb'', JNum 0)]),
          StorageSetSettled True, ResponseSent Ok]"
  by (simp add: tracked_state_def run_defs)

section \<open>The snapshot builder\<close>

text \<open>
  Claim C9. Every \<open>MediaInfo\<close> that \<open>getAllMedia\<close> emits carries the \<open>volume\<close>,
  \<open>playbackRate\<close>, \<open>preservesPitch\<close> and \<open>muted\<close> of the settings record, whatever the
  elements themselves hold: replacing the element heap by any other one (a page script
  that changed the elements directly) leaves the four reported values those of the
  settings record. The same holds for the response of the \<open>getMedia\<close> handler.
\<close>

theorem getMedia_reports_settings_not_element:
  "(\<forall>info \<in> set (fst (getAllMedia s)).
      mi_volume info = volume (currentSettings s)
      \<and> mi_playbackRate info = playbackRate (currentSettings s)
      \<and> mi_preservesPitch info = preservesPitch (currentSettings s)
      \<and> mi_muted info = muted (currentSettings s))
   \<and> (\<forall>info \<in> set (fst (getAllMedia (s\<lparr>page := (page s)\<lparr>elements := els\<rparr>\<rparr>))).
      mi_volume info = volume (currentSettings s)
      \<and> mi_playbackRate info = playbackRate (currentSettings s)
      \<and> mi_preservesPitch info = preservesPitch (currentSettings s)
      \<and> mi_muted info = muted (currentSettings s))
   \<and> (\<forall>media s'. handleAsync GetMedia s = (Resolved (Media media), s') \<longrightarrow>
        (\<forall>info \<in> set media.
           mi_volume info = volume (currentSettings s')
           \<and> mi_playbackRate info = playbackRate (currentSettings s')
           \<and> mi_preservesPitch info = preservesPitch (currentSettings s')
           \<and> mi_muted info = muted (currentSettings s')))"
proof (intro conjI ballI allI impI)
  fix media s' info
  assume h: "handleAsync GetMedia s = (Resolved (Media media), s')" and i: "info \<in> set media"
  then have "media = fst (getAllMedia (ensure_loaded s))" "s' = snd (getAllMedia (ensure_loaded s))"
    by (simp_all add: handleAsync_def split_beta)
  with i getAllMedia_reports_settings [of info "ensure_loaded s"]
  show "mi_volume info = volume (currentSettings s')"
    "mi_playbackRate info = playbackRate (currentSettings s')"
    "mi_preservesPitch info = preservesPitch (currentSettings s')"
    "mi_muted info = muted (currentSettings s')"
    by (simp_all add: getAllMedia_frame)
qed (use getAllMedia_reports_settings [of _ s]
      getAllMedia_reports_settings [of _ "s\<lparr>page := (page s)\<lparr>elements := els\<rparr>\<rparr>"] in simp_all)

theorem getMedia_reports_settings_not_element_witness:
  "el_volume (elements (page mutated_state) 0) = JNum (9 / 10)
   \<and> volume (currentSettings mutated_state) = JNum (1 / 2)
   \<and> length (fst (getAllMedia mutated_state)) = 1
   \<and> mi_volume (hd (fst (getAllMedia mutated_state))) = JNum (1 / 2)"
proof -
  have len: "length (fst (getAllMedia mutated_state)) = 1"
    by (simp add: mutated_state_def example_store_def run_defs)
  then have "hd (fst (getAllMedia mutated_state)) \<in> set (fst (getAllMedia mutated_state))"
    by (cases "fst (getAllMedia mutated_state)") simp_all
  with getMedia_reports_settings_not_element [of mutated_state "elements (page mutated_state)"]
  have "mi_volume (hd (fst (getAllMedia mutated_state))) = volume (currentSettings mutated_state)"
    by blast
  moreover have "volume (currentSettings mutated_state) = JNum (1 / 2)"
    and "el_volume (elements (page mutated_state) 0) = JNum (9 / 10)"
    by (simp_all add: mutated_state_def example_store_def run_defs)
  ultimately show ?thesis using len by simp
qed

text \<open>
  Claim C10. In every state the script can reach, the response to \<open>getMedia\<close> is a list
  with one entry per id of the media registry as it is after the call (the registry
  after pruning, followed by the elements discovered in this call), in the registry's
  order; the ids are strictly ascending, hence distinct. With an empty registry and no
  media element in the document the list is empty.
\<close>

theorem getMedia_one_entry_per_id_ascending:
  assumes "handleAsync GetMedia (run evs (initial p st)) = (r, s')"
  shows "\<exists>media. r = Resolved (Media media)
     \<and> map mi_id media = map fst (mediaRegistry s')
     \<and> sorted_wrt (<) (map mi_id media)
     \<and> distinct (map mi_id media)
     \<and> (\<exists>ys. mediaRegistry s' = mediaRegistry (pruneRegistry (run evs (initial p st))) @ ys)
     \<and> (mediaRegistry (run evs (initial p st)) = [] \<and> doc (page (run evs (initial p st))) = []
          \<longrightarrow> media = [])"
proof -
  let ?s = "run evs (initial p st)"
  let ?l = "ensure_loaded ?s"
  have ok: "registry_ok ?l"
    by (intro registry_ok_ensure_loaded registry_ok_run)
  from assms have r: "r = Resolved (Media (fst (getAllMedia ?l)))" and s': "s' = snd (getAllMedia ?l)"
    by (auto simp: handleAsync_def split_beta)
  from ok have ok': "registry_ok s'"
    unfolding s' by (rule getAllMedia_ok)
  have ids: "map mi_id (fst (getAllMedia ?l)) = map fst (mediaRegistry s')"
    unfolding s' by (rule getAllMedia_ids)
  from ok' have "sorted_wrt (<) (map fst (mediaRegistry s'))"
    by (simp add: registry_ok_def)
  moreover from this have "distinct (map fst (mediaRegistry s'))"
    by (rule ascending_distinct)
  moreover have "\<exists>ys. mediaRegistry s' = mediaRegistry (pruneRegistry ?s) @ ys"
    unfolding s' snd_getAllMedia
    using fold_identify_appends [OF pruneRegistry_ok [OF ok]]
    by (simp add: pruneRegistry_ensure_loaded)
  moreover have "mediaRegistry ?s = [] \<and> doc (page ?s) = [] \<longrightarrow> fst (getAllMedia ?l) = []"
    by (simp add: getAllMedia_empty ensure_loaded_frame)
  ultimately show ?thesis using r ids by simp
qed

theorem getMedia_one_entry_per_id_ascending_witness:
  "\<exists>media. fst (handleAsync GetMedia (run [InitialScan] (initial example_page Map.empty)))
              = Resolved (Media media)
     \<and> map mi_id media = [1]"
proof -
  obtain r s' where h: "handleAsync GetMedia (run [InitialScan] (initial example_page Map.empty)) = (r, s')"
    by (cases "handleAsync GetMedia (run [InitialScan] (initial example_page Map.empty))")
  then have "mediaRegistry s' = [(1, 0)]"
    by (auto simp: run_defs)
  with getMedia_one_entry_per_id_ascending [OF h] h show ?thesis by auto
qed

section \<open>The media registry\<close>




section \<open>The audio graph manager\<close>

text \<open>
  Claim C2. \<open>createAudioGraph\<close> (which is all that \<open>ensureAudioGraph\<close> calls) returns
  \<open>null\<close> and changes nothing when \<open>reverbEnabled\<close> is false. When the \<open>try\<close> block
  throws (in particular when tapping the element throws) it returns \<open>null\<close>, the element
  is not tapped and the page is unchanged; the error is caught. It returns a graph only
  when \<open>reverbEnabled\<close> is true, and then either the graph was already registered for
  the id and nothing changes, or the tap succeeded in this call. An element is tapped
  only by a call that returns a graph. \<open>applySettingsToElement\<close> taps nothing when
  \<open>reverbEnabled\<close> is false, and in every case it has applied volume, rate and mute.
\<close>

theorem createAudioGraph_taps_only_when_enabled:
  "(\<not> reverbEnabled (currentSettings s) \<longrightarrow> createAudioGraph i el s = (None, s))
   \<and> (reverbEnabled (currentSettings s) \<and> audioGraphRegistry s i = None
        \<and> fst (createAudioGraph_try i el s) = Inl e \<longrightarrow>
      fst (createAudioGraph i el s) = None
      \<and> tapped (snd (createAudioGraph i el s)) = tapped s
      \<and> page (snd (createAudioGraph i el s)) = page s
      \<and> audioGraphRegistry (snd (createAudioGraph i el s)) = audioGraphRegistry s)
   \<and> (reverbEnabled (currentSettings s) \<and> audioGraphRegistry s i = None
        \<and> tapThrows (page s) el \<longrightarrow>
      fst (createAudioGraph i el s) = None
      \<and> tapped (snd (createAudioGraph i el s)) = tapped s)
   \<and> (fst (createAudioGraph i el s) = Some g \<longrightarrow>
      reverbEnabled (currentSettings s)
      \<and> audioGraphRegistry (snd (createAudioGraph i el s)) i = Some g
      \<and> (audioGraphRegistry s i = Some g \<and> snd (createAudioGraph i el s) = s
          \<or> audioGraphRegistry s i = None \<and> \<not> tapThrows (page s) el
            \<and> tapped (snd (createAudioGraph i el s)) = insert el (tapped s)))
   \<and> (tapped (snd (createAudioGraph i el s)) \<noteq> tapped s \<longrightarrow>
      reverbEnabled (currentSettings s) \<and> fst (createAudioGraph i el s) \<noteq> None)
   \<and> (\<not> reverbEnabled (currentSettings s) \<longrightarrow>
      tapped (applySettingsToElement el i s) = tapped s
      \<and> audioGraphRegistry (applySettingsToElement el i s) = audioGraphRegistry s)
   \<and> el_volume (elements (page (applySettingsToElement el i s)) el) = volume (currentSettings s)
   \<and> el_playbackRate (elements (page (applySettingsToElement el i s)) el)
       = playbackRate (currentSettings s)
   \<and> el_muted (elements (page (applySettingsToElement el i s)) el) = muted (currentSettings s)"
proof -
  have apply_page:
    "page (applySettingsToElement el i s) =
       (page s)\<lparr>elements := (elements (page s))(el :=
          (elements (page s) el)
            \<lparr>el_volume := volume (currentSettings s),
             el_playbackRate := playbackRate (currentSettings s),
             el_preservesPitch := preservesPitch (currentSettings s),
             el_mozPreservesPitch := preservesPitch (currentSettings s),
             el_muted := muted (currentSettings s)\<rparr>)\<rparr>"
    by (simp add: applySettingsToElement_def ensureAudioGraph_def Let_def split_beta
        updateReverbMix_frame createAudioGraph_frame)
  have off: "\<not> reverbEnabled (currentSettings s) \<longrightarrow>
      tapped (applySettingsToElement el i s) = tapped s
      \<and> audioGraphRegistry (applySettingsToElement el i s) = audioGraphRegistry s"
    by (simp add: applySettingsToElement_def Let_def)
  have off0: "\<not> reverbEnabled (currentSettings s) \<longrightarrow> createAudioGraph i el s = (None, s)"
    by (simp add: createAudioGraph_def)
  show ?thesis
    using createAudioGraph_try_throws [of i el s] createAudioGraph_try_returns [of i el s]
      createAudioGraph_try_tapThrows [of s el i] off off0
    by (auto simp: fst_createAudioGraph snd_createAudioGraph createAudioGraph_try_frame apply_page
        split: option.splits sum.splits)
qed

theorem createAudioGraph_taps_only_when_enabled_witness:
  "\<not> reverbEnabled (currentSettings (initial example_page Map.empty))
   \<and> createAudioGraph 1 0 (initial example_page Map.empty)
       = (None, initial example_page Map.empty)
   \<and> reverbEnabled (currentSettings blocked_state)
   \<and> audioGraphRegistry blocked_state 1 = None
   \<and> tapThrows (page blocked_state) 0
   \<and> fst (createAudioGraph 1 0 blocked_state) = None
   \<and> tapped (snd (createAudioGraph 1 0 blocked_state)) = {}
   \<and> fst (createAudioGraph 1 0 enabled_state) = Some 0
   \<and> tapped (snd (createAudioGraph 1 0 enabled_state)) = {0}
   \<and> audioGraphRegistry (snd (createAudioGraph 1 0 enabled_state)) 1 = Some 0"
proof -
  have a: "\<not> reverbEnabled (currentSettings (initial example_page Map.empty))"
    by (simp add: initial_def DEFAULT_SETTINGS_def)
  have b: "reverbEnabled (currentSettings blocked_state)"
    "audioGraphRegistry blocked_state 1 = None" "tapThrows (page blocked_state) 0"
    "tapped blocked_state = {}"
    by (simp_all add: blocked_state_def initial_def example_page_def)
  have c: "fst (createAudioGraph 1 0 enabled_state) = Some 0" "tapped enabled_state = {}"
    "audioGraphRegistry enabled_state 1 = None"
    by (simp_all add: enabled_state_def run_defs)
  from createAudioGraph_taps_only_when_enabled [of "initial example_page Map.empty" 1 0] a
  have 1: "createAudioGraph 1 0 (initial example_page Map.empty)
       = (None, initial example_page Map.empty)"
    by blast
  from createAudioGraph_taps_only_when_enabled [of blocked_state 1 0] b(1,2,3)
  have "fst (createAudioGraph 1 0 blocked_state) = None"
    and "tapped (snd (createAudioGraph 1 0 blocked_state)) = tapped blocked_state"
    by blast+
  with b(4) have 2: "fst (createAudioGraph 1 0 blocked_state) = None"
    "tapped (snd (createAudioGraph 1 0 blocked_state)) = {}"
    by simp_all
  note t = createAudioGraph_taps_only_when_enabled [of enabled_state 1 0 _ 0]
  from t c(1) have r: "audioGraphRegistry (snd (createAudioGraph 1 0 enabled_state)) 1 = Some 0"
    and "audioGraphRegistry enabled_state 1 = Some 0
           \<and> snd (createAudioGraph 1 0 enabled_state) = enabled_state
         \<or> audioGraphRegistry enabled_state 1 = None \<and> \<not> tapThrows (page enabled_state) 0
           \<and> tapped (snd (createAudioGraph 1 0 enabled_state)) = insert 0 (tapped enabled_state)"
    by blast+
  with c(2,3) have 3: "tapped (snd (createAudioGraph 1 0 enabled_state)) = {0}"
    "audioGraphRegistry (snd (createAudioGraph 1 0 enabled_state)) 1 = Some 0"
    by auto
  from a b(1,2,3) c(1) 1 2 3 show ?thesis by blast
qed

text \<open>
  Claim C5. In every state the script can reach, \<open>updateReverbMix\<close> with a wet mix \<open>m\<close>
  in \<open>[0, 1]\<close> on an id that has a graph sets the target of the dry gain to
  \<open>cos(m\<pi>/2)\<close> and that of the wet gain to \<open>sin(m\<pi>/2)\<close>, with time constant 0.02, and
  records \<open>m\<close> as the graph's mix. Over the reals the squares of the two targets add up
  to 1, both are non-negative, and for \<open>0 < m < 1\<close> they are not the linear crossfade
  \<open>(1 - m, m)\<close>.
\<close>

theorem updateReverbMix_equal_power:
  assumes "s = run evs (initial p st)" and "audioGraphRegistry s i = Some g"
    and "0 \<le> m" and "m \<le> 1"
  shows "gain_target (dryGain (graphs (updateReverbMix i (JNum m) s) g))
           = Some (Some (cos ((m * pi) / 2)), 0.02)
     \<and> gain_target (wetGain (graphs (updateReverbMix i (JNum m) s) g))
           = Some (Some (sin ((m * pi) / 2)), 0.02)
     \<and> reverbMix (graphs (updateReverbMix i (JNum m) s) g) = JNum m
     \<and> (cos ((m * pi) / 2))\<^sup>2 + (sin ((m * pi) / 2))\<^sup>2 = 1
     \<and> 0 \<le> cos ((m * pi) / 2) \<and> 0 \<le> sin ((m * pi) / 2)
     \<and> (0 < m \<and> m < 1 \<longrightarrow>
          (cos ((m * pi) / 2), sin ((m * pi) / 2)) \<noteq> (1 - m, m))"
proof -
  have "graph_ok s" unfolding assms(1) by (rule graph_ok_run)
  with assms(2) obtain ctx where ctx: "audioContext s = Some ctx"
    by (cases "audioContext s") (auto simp: graph_ok_def)
  note nonneg = equal_power_nonneg [OF assms(3,4)]
  have "0 < m \<and> m < 1 \<longrightarrow> (cos ((m * pi) / 2), sin ((m * pi) / 2)) \<noteq> (1 - m, m)"
    using equal_power_not_linear [of m] by auto
  with nonneg ctx assms(2) show ?thesis
    by (simp add: updateReverbMix_def Let_def setTargetAtTime_def)
qed

theorem updateReverbMix_equal_power_witness:
  "audioGraphRegistry reverb_on_state 1 = Some 0
   \<and> gain_target (dryGain (graphs (updateReverbMix 1 (JNum (1 / 2)) reverb_on_state) 0))
       = Some (Some (cos (pi / 4)), 0.02)
   \<and> gain_target (wetGain (graphs (updateReverbMix 1 (JNum (1 / 2)) reverb_on_state) 0))
       = Some (Some (sin (pi / 4)), 0.02)
   \<and> (cos (pi / 4), sin (pi / 4)) \<noteq> (1 / 2, 1 / (2 :: real))"
proof -
  have g: "audioGraphRegistry reverb_on_state 1 = Some 0"
    by (simp add: reverb_on_state_def run_defs)
  have x: "((1 / 2) * pi) / 2 = pi / 4" by simp
  from updateReverbMix_equal_power
    [where s = reverb_on_state and evs = "[InitialScan, Message (SetReverbEnabled 1 True)]"
       and p = example_page and st = Map.empty and i = 1 and g = 0 and m = "1 / 2",
     OF reverb_on_state_def g, unfolded x]
  show ?thesis using g by simp
qed

text \<open>
  Claim C1, at a failing input. On the example page the popup sends
  \<open>setReverbEnabled(1, true)\<close>, \<open>setReverbEnabled(1, false)\<close> and \<open>setReverbEnabled(1, true)\<close>
  before the cleanup timer of the second command expires. The third command finds the
  graph of the first still registered and returns it; reverb is enabled and the graph is
  connected. When the timer expires, its callback disconnects that very graph and
  deletes the registry entry: reverb is enabled in the settings, the id has no graph,
  and the element, which stays tapped, feeds a disconnected source node.
\<close>

theorem teardown_destroys_reenabled_graph:
  "map_of (mediaRegistry toggled_thrice) 1 = Some 0
   \<and> reverbEnabled (currentSettings toggled_thrice)
   \<and> audioGraphRegistry toggled_thrice 1 = Some 0
   \<and> source_connected (graphs toggled_thrice 0)
   \<and> timers toggled_thrice = [(1, 0)]
   \<and> reverbEnabled (currentSettings (step TimerFires toggled_thrice))
   \<and> audioGraphRegistry (step TimerFires toggled_thrice) 1 = None
   \<and> \<not> source_connected (graphs (step TimerFires toggled_thrice) 0)
   \<and> \<not> gain_connected (dryGain (graphs (step TimerFires toggled_thrice) 0))
   \<and> 0 \<in> tapped (step TimerFires toggled_thrice)"
  by (simp add: toggled_thrice_def run_defs)

theorem teardown_destroys_reenabled_graph_witness:
  "audioGraphRegistry toggled_thrice 1 = Some 0
   \<and> audioGraphRegistry (step TimerFires toggled_thrice) 1 = None"
  using teardown_destroys_reenabled_graph by simp

end
